theory Spec2Isabelle
  imports Main
begin

section \<open>Data model\<close>

text \<open>
  \<^verbatim>\<open>ProcType: TypeAlias = Literal["mypy", "dmypy", "kill"]\<close>: which of the three
  process runs produced a result.
\<close>

datatype ProcType = Mypy | Dmypy | Kill

text \<open>
  The dataclass \<^verbatim>\<open>ProcResult\<close>. Python's \<^verbatim>\<open>str\<close> is modelled as \<open>string\<close>, read as
  the UTF-8 bytes of the decoded text: the two patterns below contain ASCII characters
  only, and a byte of a multi-byte UTF-8 sequence is never an ASCII byte, so matching
  bytes and matching code points agree; so does emptiness. Python's \<^verbatim>\<open>int\<close> is \<open>int\<close>.
\<close>

record ProcResult =
  type :: ProcType
  stdout :: string
  stderr :: string
  exit_code :: int

section \<open>Result classifier\<close>

subsection \<open>The fragment of Python's \<^verbatim>\<open>re\<close> used by the two patterns\<close>

definition NL :: char where
  "NL = CHR 0x0A"

text \<open>
  Pattern syntax: a run of literal characters, a character range \<^verbatim>\<open>[lo-hi]\<close>,
  \<^verbatim>\<open>r+\<close>, \<^verbatim>\<open>r?\<close>, concatenation, the empty pattern, and the anchors \<^verbatim>\<open>^\<close> and \<^verbatim>\<open>$\<close>
  (neither pattern is compiled with \<^verbatim>\<open>re.MULTILINE\<close>).
\<close>

datatype re =
    Chars string
  | CharRange char char
  | OneOrMore re
  | Opt re
  | Cat re re
  | Empty
  | Bol
  | Eol

text \<open>
  A cursor is the offset reached in the subject string together with the text that is
  still ahead of it.
\<close>

type_synonym cursor = "nat \<times> string"

definition in_range :: "char \<Rightarrow> char \<Rightarrow> char \<Rightarrow> bool" where
  "in_range lo hi c = ((of_char lo :: nat) \<le> of_char c \<and> (of_char c :: nat) \<le> of_char hi)"

text \<open>
  One or more iterations of a sub-pattern, longest first. An iteration that consumes
  nothing is not repeated, so the number of further iterations is bounded by the length
  of the text ahead.
\<close>

fun repeat :: "nat \<Rightarrow> (cursor \<Rightarrow> cursor list) \<Rightarrow> cursor \<Rightarrow> cursor list" where
  "repeat 0 f cur = f cur"
| "repeat (Suc n) f cur =
     concat (map (\<lambda>cur'. (if length (snd cur') < length (snd cur) then repeat n f cur' else [])
                          @ [cur'])
                 (f cur))"

text \<open>
  \<open>ends r cur\<close> lists, in the order a backtracking matcher tries them, the cursors at
  which a match of \<open>r\<close> that starts at \<open>cur\<close> can end. \<^verbatim>\<open>^\<close> matches at offset 0 only;
  \<^verbatim>\<open>$\<close> matches at the end of the string and just before a newline that is the last
  character of the string.
\<close>

primrec ends :: "re \<Rightarrow> cursor \<Rightarrow> cursor list" where
  "ends (Chars w) = (\<lambda>cur. if take (length w) (snd cur) = w
                            then [(fst cur + length w, drop (length w) (snd cur))] else [])"
| "ends (CharRange lo hi) = (\<lambda>cur. case snd cur of
                              [] \<Rightarrow> []
                            | c # cs \<Rightarrow> if in_range lo hi c then [(Suc (fst cur), cs)] else [])"
| "ends (OneOrMore r) = (\<lambda>cur. repeat (length (snd cur)) (ends r) cur)"
| "ends (Opt r) = (\<lambda>cur. ends r cur @ [cur])"
| "ends (Cat r1 r2) = (\<lambda>cur. concat (map (ends r2) (ends r1 cur)))"
| "ends Empty = (\<lambda>cur. [cur])"
| "ends Bol = (\<lambda>cur. if fst cur = 0 then [cur] else [])"
| "ends Eol = (\<lambda>cur. if snd cur = [] \<or> snd cur = [NL] then [cur] else [])"

definition seq :: "re list \<Rightarrow> re" where
  "seq rs = foldr Cat rs Empty"

text \<open>
  \<^verbatim>\<open>Pattern.search\<close>: the leftmost offset at which the pattern matches, with the span of
  the match the matcher finds first there; \<open>None\<close> when there is none. The classifier
  only tests the result for truth, and a match object is always true.
\<close>

definition search :: "re \<Rightarrow> string \<Rightarrow> (nat \<times> nat) option" where
  "search r s =
     (case List.find (\<lambda>i. ends r (i, drop i s) \<noteq> []) [0 ..< Suc (length s)] of
        None \<Rightarrow> None
      | Some i \<Rightarrow> Some (i, fst (hd (ends r (i, drop i s)))))"

subsection \<open>The two patterns and the classifier\<close>

text \<open>\<^verbatim>\<open>^Success: no issues found in [0-9]+ source file(s)?\n$\<close>\<close>

definition NO_ERRORS_RE :: re where
  "NO_ERRORS_RE =
     seq [Bol, Chars ''Success: no issues found in '', OneOrMore (CharRange CHR ''0'' CHR ''9''),
          Chars '' source file'', Opt (Chars ''s''), Chars [NL], Eol]"

text \<open>
  \<^verbatim>\<open>\nFound [0-9]+ error(s)? in [0-9]+ file(s)? \(checked [0-9]+ source files\)\n$\<close>
\<close>

definition WITH_ERRORS_RE :: re where
  "WITH_ERRORS_RE =
     seq [Chars [NL], Chars ''Found '', OneOrMore (CharRange CHR ''0'' CHR ''9''),
          Chars '' error'', Opt (Chars ''s''), Chars '' in '',
          OneOrMore (CharRange CHR ''0'' CHR ''9''), Chars '' file'', Opt (Chars ''s''),
          Chars '' (checked '', OneOrMore (CharRange CHR ''0'' CHR ''9''),
          Chars '' source files)'', Chars [NL], Eol]"

definition is_successful_result :: "ProcResult \<Rightarrow> bool" where
  "is_successful_result result =
     (if exit_code result \<noteq> 0 \<and> exit_code result \<noteq> 1 then False
      else if stderr result \<noteq> [] then False
      else if search NO_ERRORS_RE (stdout result) \<noteq> None
              \<or> search WITH_ERRORS_RE (stdout result) \<noteq> None then True
      else False)"

subsection \<open>The texts the two patterns accept, written out\<close>

definition digits :: "string \<Rightarrow> bool" where
  "digits ds = (ds \<noteq> [] \<and> list_all (in_range CHR ''0'' CHR ''9'') ds)"

definition plural :: "string \<Rightarrow> bool" where
  "plural sfx = (sfx = [] \<or> sfx = ''s'')"

text \<open>What \<^verbatim>\<open>$\<close> allows after the match: nothing, or one final newline.\<close>

definition at_end :: "string \<Rightarrow> bool" where
  "at_end rest = (rest = [] \<or> rest = [NL])"

text \<open>The success line: it is the whole output.\<close>

definition no_errors_text :: "string \<Rightarrow> bool" where
  "no_errors_text s =
     (\<exists>ds sfx rest. digits ds \<and> plural sfx \<and> at_end rest \<and>
        s = ''Success: no issues found in '' @ ds @ '' source file'' @ sfx @ [NL] @ rest)"

text \<open>The summary footer: a line of its own that ends the output, after any text.\<close>

definition with_errors_text :: "string \<Rightarrow> bool" where
  "with_errors_text s =
     (\<exists>pre d1 s1 d2 s2 d3 rest.
        digits d1 \<and> plural s1 \<and> digits d2 \<and> plural s2 \<and> digits d3 \<and> at_end rest \<and>
        s = pre @ [NL] @ ''Found '' @ d1 @ '' error'' @ s1 @ '' in '' @ d2 @ '' file'' @ s2
              @ '' (checked '' @ d3 @ '' source files)'' @ [NL] @ rest)"

text \<open>
  \<open>denotes r P\<close>: started at offset \<open>p\<close>, the pattern \<open>r\<close> can consume exactly the texts
  \<open>u\<close> with \<open>P p u ys\<close>, where \<open>ys\<close> is the text left over.
\<close>

definition denotes :: "re \<Rightarrow> (nat \<Rightarrow> string \<Rightarrow> string \<Rightarrow> bool) \<Rightarrow> bool" where
  "denotes r P \<longleftrightarrow>
     (\<forall>p xs q ys. (q, ys) \<in> set (ends r (p, xs)) \<longleftrightarrow>
        (\<exists>u. xs = u @ ys \<and> q = p + length u \<and> P p u ys))"

section \<open>Processes, tasks and the event loop\<close>

text \<open>
  The exceptions a process run can end with: \<^verbatim>\<open>create_subprocess_exec\<close> fails to launch
  the executable, or \<^verbatim>\<open>bytes.decode\<close> rejects the captured output. \<open>TimeoutError\<close> is
  what \<^verbatim>\<open>wait_for\<close> raises, \<open>AssertionError\<close> what \<^verbatim>\<open>inner_main\<close> raises itself, and
  \<open>InvalidStateError\<close> what \<^verbatim>\<open>Task.result\<close> raises on a task that is not done.
\<close>

datatype exn =
    FileNotFoundError
  | PermissionError
  | UnicodeDecodeError
  | TimeoutError
  | AssertionError
  | InvalidStateError

text \<open>
  What a launched command does when it is left alone: it exits with its captured
  (decoded) standard output, standard error and return code, or launching it or reading
  it raises, or it never exits.
\<close>

datatype completion = Exits string string int | Raises exn | Never

text \<open>The state of an awaitable: its value, the exception it raised, or not finished.\<close>

datatype 'a awaited = Returned 'a | Raised exn | Pending

text \<open>Which of the two racing tasks the event loop sees finished when \<^verbatim>\<open>wait\<close> returns.\<close>

datatype race = DaemonFirst | SyncFirst | Together

text \<open>
  Everything outside the program: where the scripts are installed
  (\<^verbatim>\<open>Path(sys.executable).parent / name\<close>), what each launched command does, and the
  timing of the two tasks: the order in which they finish when both do, and whether the
  daemon task finishes within the one second granted to it after the one-shot task.
\<close>

record env =
  script_path :: "string \<Rightarrow> string"
  process :: "ProcType \<Rightarrow> string list \<Rightarrow> completion"
  first_completed :: race
  within_grace :: bool

datatype level = DEBUG | INFO | WARNING | ERROR

text \<open>
  The log records of the program, with the values their f-strings format (the rendering
  to text, \<^verbatim>\<open>strip()\<close> and \<^verbatim>\<open>'(empty)'\<close>, is left to the logger):
  \<^verbatim>\<open>Launching mypy\<close> and \<^verbatim>\<open>Launching dmypy\<close>,
  \<^verbatim>\<open>Failed to kill dmypy (exit {exit_code}): {stderr}\<close>, \<^verbatim>\<open>dmypy killed\<close>,
  \<^verbatim>\<open>dmypy finished successfully (code {exit_code})\<close>,
  \<^verbatim>\<open>dmypy exited with {exit_code}. stderr: {stderr} stdout: {stdout}\<close>,
  \<^verbatim>\<open>mypy finished first. waiting for dmypy to catch up...\<close>,
  \<^verbatim>\<open>timeout waiting for dmypy\<close>.
\<close>

datatype message =
    Launching ProcType
  | Failed_to_kill int string
  | Dmypy_killed
  | Dmypy_finished int
  | Dmypy_exited int string string
  | Mypy_finished_first
  | Timeout_waiting

text \<open>
  What the program does to the outside, in order: tasks created, commands handed to
  \<^verbatim>\<open>create_subprocess_exec\<close>, log records, the awaits of the coordinator
  (\<^verbatim>\<open>wait(..., return_when=FIRST_COMPLETED)\<close> and \<^verbatim>\<open>wait_for(task, timeout)\<close>), task
  cancellations, and writes to the two standard streams.
\<close>

datatype event =
    Create_task ProcType
  | Exec ProcType "string list"
  | Log level message
  | Wait_first
  | Wait_for ProcType "nat option"
  | Cancel ProcType
  | Stdout_write string
  | Stderr_write string

fun stdout_of :: "event list \<Rightarrow> string" where
  "stdout_of [] = []"
| "stdout_of (Stdout_write s # evs) = s @ stdout_of evs"
| "stdout_of (_ # evs) = stdout_of evs"

fun stderr_of :: "event list \<Rightarrow> string" where
  "stderr_of [] = []"
| "stderr_of (Stderr_write s # evs) = s @ stderr_of evs"
| "stderr_of (_ # evs) = stderr_of evs"

section \<open>Process runner\<close>

text \<open>
  \<^verbatim>\<open>wait_process_results\<close>: launch the command, drain both pipes, wait for the exit
  code, and build the result with the given type. The two \<^verbatim>\<open>assert\<close>s hold whenever
  the launch succeeds, since both pipes are requested.
\<close>

definition wait_process_results ::
  "env \<Rightarrow> ProcType \<Rightarrow> string list \<Rightarrow> event list \<times> ProcResult awaited" where
  "wait_process_results e t cmd =
     ([Exec t cmd],
      case process e t cmd of
        Exits out err code \<Rightarrow>
          Returned \<lparr>type = t, stdout = out, stderr = err, exit_code = code\<rparr>
      | Raises x \<Rightarrow> Raised x
      | Never \<Rightarrow> Pending)"

definition run_mypy :: "env \<Rightarrow> string list \<Rightarrow> event list \<times> ProcResult awaited" where
  "run_mypy e args =
     (let (evs, r) = wait_process_results e Mypy (script_path e ''mypy'' # args)
      in (Log DEBUG (Launching Mypy) # evs, r))"

definition run_dmypy :: "env \<Rightarrow> string list \<Rightarrow> event list \<times> ProcResult awaited" where
  "run_dmypy e args =
     (let (evs, r) = wait_process_results e Dmypy
                       ([script_path e ''dmypy'', ''run'', ''--''] @ args)
      in (Log DEBUG (Launching Dmypy) # evs, r))"

definition kill_mypy :: "env \<Rightarrow> event list \<times> unit awaited" where
  "kill_mypy e =
     (let (evs, r) = wait_process_results e Kill [script_path e ''dmypy'', ''kill'']
      in case r of
           Returned result \<Rightarrow>
             (if exit_code result \<noteq> 0 \<or> stderr result \<noteq> []
              then (evs @ [Log WARNING (Failed_to_kill (exit_code result) (stderr result))],
                    Returned ())
              else (evs @ [Log INFO Dmypy_killed], Returned ()))
         | Raised x \<Rightarrow> (evs, Raised x)
         | Pending \<Rightarrow> (evs, Pending))"

section \<open>Race coordinator and termination reporter\<close>

text \<open>
  \<^verbatim>\<open>done, pending = await wait([daemon_task, sync_task], return_when=FIRST_COMPLETED)\<close>:
  the set \<^verbatim>\<open>done\<close>. A task that raised is done. The call does not return while neither
  task is done (\<open>None\<close>).
\<close>

definition wait_first :: "env \<Rightarrow> string list \<Rightarrow> ProcType set option" where
  "wait_first e args =
     (case (snd (run_dmypy e args), snd (run_mypy e args)) of
        (Pending, Pending) \<Rightarrow> None
      | (Pending, _) \<Rightarrow> Some {Mypy}
      | (_, Pending) \<Rightarrow> Some {Dmypy}
      | (_, _) \<Rightarrow>
          Some (case first_completed e of
                  DaemonFirst \<Rightarrow> {Dmypy}
                | SyncFirst \<Rightarrow> {Mypy}
                | Together \<Rightarrow> {Dmypy, Mypy}))"

text \<open>\<^verbatim>\<open>Task.result()\<close>: the value, or the task's exception raised again.\<close>

definition task_result :: "'a awaited \<Rightarrow> exn + 'a" where
  "task_result a =
     (case a of Returned v \<Rightarrow> Inr v | Raised x \<Rightarrow> Inl x | Pending \<Rightarrow> Inl InvalidStateError)"

text \<open>
  \<^verbatim>\<open>await wait_for(task, timeout)\<close>: without a timeout it is the task itself, its
  exception included; with one, a task that does not finish in time is cancelled and
  \<open>TimeoutError\<close> is raised (the built-in one, which \<^verbatim>\<open>except TimeoutError\<close> catches,
  as of Python 3.11). \<open>in_time\<close> says whether the task finishes before the timeout.
\<close>

definition wait_for :: "'a awaited \<Rightarrow> nat option \<Rightarrow> bool \<Rightarrow> 'a awaited" where
  "wait_for a timeout in_time =
     (case timeout of
        None \<Rightarrow> a
      | Some _ \<Rightarrow> (case a of Pending \<Rightarrow> Raised TimeoutError
                            | _ \<Rightarrow> if in_time then a else Raised TimeoutError))"

text \<open>
  The first lines of the race: both tasks are created, the coordinator suspends in
  \<^verbatim>\<open>wait\<close>, and the event loop starts the two task bodies in the order of their creation.
\<close>

definition launch :: "env \<Rightarrow> string list \<Rightarrow> event list" where
  "launch e args =
     [Create_task Dmypy, Create_task Mypy, Wait_first]
       @ fst (run_dmypy e args) @ fst (run_mypy e args)"

text \<open>
  \<^verbatim>\<open>await wait_for(daemon_task, timeout=1)\<close>, as the coordinator sees it after the
  one-shot task has finished first.
\<close>

definition grace_wait :: "env \<Rightarrow> string list \<Rightarrow> ProcResult awaited" where
  "grace_wait e args = wait_for (snd (run_dmypy e args)) (Some 1) (within_grace e)"

text \<open>
  Lines 86 to 116 of \<^verbatim>\<open>inner_main\<close>: the events of the race and the value of the
  variable \<^verbatim>\<open>result\<close> after it, unless an exception escapes or an await never returns.
\<close>

definition coordinate :: "env \<Rightarrow> string list \<Rightarrow> event list \<times> ProcResult awaited" where
  "coordinate e args =
     (case wait_first e args of
        None \<Rightarrow> (launch e args, Pending)
      | Some done \<Rightarrow>
          if Dmypy \<in> done then
            (case task_result (snd (run_dmypy e args)) of
               Inl x \<Rightarrow> (launch e args, Raised x)
             | Inr result \<Rightarrow>
                 if is_successful_result result then
                   (launch e args @ [Log DEBUG (Dmypy_finished (exit_code result)), Cancel Mypy],
                    Returned result)
                 else
                   (let warned = launch e args
                          @ [Log WARNING
                               (Dmypy_exited (exit_code result) (stderr result) (stdout result))]
                          @ fst (kill_mypy e)
                    in case snd (kill_mypy e) of
                         Raised x \<Rightarrow> (warned, Raised x)
                       | Pending \<Rightarrow> (warned, Pending)
                       | Returned _ \<Rightarrow>
                           (warned @ [Wait_for Mypy None],
                            wait_for (snd (run_mypy e args)) None True)))
          else if Mypy \<in> done then
            (case task_result (snd (run_mypy e args)) of
               Inl x \<Rightarrow> (launch e args, Raised x)
             | Inr result \<Rightarrow>
                 (let waiting = launch e args
                        @ [Log DEBUG Mypy_finished_first, Wait_for Dmypy (Some 1)]
                  in case grace_wait e args of
                       Returned _ \<Rightarrow> (waiting, Returned result)
                     | Raised x \<Rightarrow>
                         if x = TimeoutError
                         then (waiting @ [Log DEBUG Timeout_waiting, Cancel Dmypy],
                               Returned result)
                         else (waiting, Raised x)
                     | Pending \<Rightarrow> (waiting, Pending)))
          else (launch e args, Raised AssertionError))"

text \<open>How the process ends: \<^verbatim>\<open>sys.exit(code)\<close>, an exception nobody catches, or never.\<close>

datatype ending = SystemExit int | Uncaught exn | Blocked

text \<open>Lines 118 to 122 of \<^verbatim>\<open>inner_main\<close>.\<close>

definition report :: "ProcResult \<Rightarrow> event list \<times> ending" where
  "report result =
     ([Stdout_write (stdout result)]
        @ (if stderr result \<noteq> []
           then [Stderr_write (''STDERR:'' @ [NL]), Stderr_write (stderr result)]
           else []),
      SystemExit (exit_code result))"

text \<open>
  \<^verbatim>\<open>inner_main\<close>, with \<^verbatim>\<open>sys.argv[1:]\<close> as \<open>args\<close>. (\<^verbatim>\<open>main\<close> adds the
  logging setup and a handler for \<^verbatim>\<open>KeyboardInterrupt\<close>, the user's interrupt, which
  no command of the program raises; every other exception and \<^verbatim>\<open>SystemExit\<close> pass
  through it unchanged.)
\<close>

definition inner_main :: "env \<Rightarrow> string list \<Rightarrow> event list \<times> ending" where
  "inner_main e args =
     (if args = [] then ([Stdout_write (''No args!'' @ [NL])], SystemExit 1)
      else case coordinate e args of
             (evs, Returned result) \<Rightarrow> (evs @ fst (report result), snd (report result))
           | (evs, Raised x) \<Rightarrow> (evs, Uncaught x)
           | (evs, Pending) \<Rightarrow> (evs, Blocked))"

section \<open>The exit status of the process\<close>

text \<open>
  What the parent of the tool reads as its exit status, on POSIX and for the codes a
  child process can return: \<^verbatim>\<open>sys.exit(n)\<close> ends the interpreter with \<^verbatim>\<open>exit(n)\<close>, of
  which the parent sees the low eight bits; an exception nobody catches ends it with
  status 1; a program that never ends has none.
\<close>

definition exit_status :: "ending \<Rightarrow> int option" where
  "exit_status en =
     (case en of SystemExit n \<Rightarrow> Some (n mod 256) | Uncaught x \<Rightarrow> Some 1 | Blocked \<Rightarrow> None)"

section \<open>Tasks and their child processes\<close>

text \<open>
  A task of the race, as the event loop holds it: whether its coroutine is still
  suspended, has ended (with a value or an exception) or has been cancelled, and whether
  the child process it launched is running.
\<close>

datatype task_state = Unfinished | Finished | Cancelled

record task =
  state :: task_state
  child_alive :: bool

text \<open>
  \<^verbatim>\<open>Task.cancel()\<close> on a task that runs \<^verbatim>\<open>wait_process_results\<close>. Modelled from asyncio's
  documentation: a task that is done or cancelled is left as it is (the call returns
  false); into the coroutine of any other task \<^verbatim>\<open>CancelledError\<close> is thrown at the await
  it is suspended in. Lines 38 to 44 have no \<^verbatim>\<open>try\<close> statement around their awaits, so
  the exception ends the coroutine there and none of its statements runs: the child is
  not signalled, and no other line of the program signals a child.
\<close>

definition cancel :: "task \<Rightarrow> task" where
  "cancel t =
     (case state t of
        Unfinished \<Rightarrow> t\<lparr>state := Cancelled\<rparr>
      | Finished \<Rightarrow> t
      | Cancelled \<Rightarrow> t)"

text \<open>The two tasks \<^verbatim>\<open>inner_main\<close> creates, under the names of its variables.\<close>

record tasks =
  daemon_task :: task
  sync_task :: task

text \<open>The kill run is no task: \<^verbatim>\<open>kill_mypy\<close> is awaited in place.\<close>

definition on_task :: "ProcType \<Rightarrow> (task \<Rightarrow> task) \<Rightarrow> tasks \<Rightarrow> tasks" where
  "on_task t f w =
     (case t of
        Dmypy \<Rightarrow> w\<lparr>daemon_task := f (daemon_task w)\<rparr>
      | Mypy \<Rightarrow> w\<lparr>sync_task := f (sync_task w)\<rparr>
      | Kill \<Rightarrow> w)"

definition racing :: "env \<Rightarrow> string list \<Rightarrow> ProcType \<Rightarrow> ProcResult awaited" where
  "racing e args t =
     (case t of
        Dmypy \<Rightarrow> snd (run_dmypy e args)
      | Mypy \<Rightarrow> snd (run_mypy e args)
      | Kill \<Rightarrow> Pending)"

text \<open>A command that could not be launched has no child.\<close>

definition launch_failed :: "'a awaited \<Rightarrow> bool" where
  "launch_failed a = (a = Raised FileNotFoundError \<or> a = Raised PermissionError)"

text \<open>
  A task when \<^verbatim>\<open>wait\<close> returns: done, its child gone, when it is in \<^verbatim>\<open>done\<close>; otherwise
  still suspended, with its child running if it could be launched.
\<close>

definition seen :: "env \<Rightarrow> string list \<Rightarrow> ProcType \<Rightarrow> task" where
  "seen e args t =
     (if (case wait_first e args of None \<Rightarrow> False | Some done \<Rightarrow> t \<in> done)
      then \<lparr>state = Finished, child_alive = False\<rparr>
      else \<lparr>state = Unfinished, child_alive = \<not> launch_failed (racing e args t)\<rparr>)"

definition after_first_wait :: "env \<Rightarrow> string list \<Rightarrow> tasks" where
  "after_first_wait e args = \<lparr>daemon_task = seen e args Dmypy, sync_task = seen e args Mypy\<rparr>"

text \<open>
  \<^verbatim>\<open>wait_for(task, timeout)\<close> on a task: a task that ends in time is done and its child
  gone; without a timeout the wait goes on; with one, \<^verbatim>\<open>wait_for\<close> cancels the task
  when the time is up (asyncio's documentation) before it raises \<open>TimeoutError\<close>.
\<close>

definition after_wait_for :: "'a awaited \<Rightarrow> nat option \<Rightarrow> bool \<Rightarrow> task \<Rightarrow> task" where
  "after_wait_for a timeout in_time t =
     (if a \<noteq> Pending \<and> (timeout = None \<or> in_time)
      then \<lparr>state = Finished, child_alive = False\<rparr>
      else if timeout = None then t
      else cancel t)"

text \<open>What one event of the coordinator does to the two tasks.\<close>

definition step :: "env \<Rightarrow> string list \<Rightarrow> tasks \<Rightarrow> event \<Rightarrow> tasks" where
  "step e args w ev =
     (case ev of
        Cancel t \<Rightarrow> on_task t cancel w
      | Wait_for t timeout \<Rightarrow>
          on_task t (after_wait_for (racing e args t) timeout (within_grace e)) w
      | _ \<Rightarrow> w)"

text \<open>The two tasks and their children when \<^verbatim>\<open>inner_main\<close> ends.\<close>

definition tasks_at_exit :: "env \<Rightarrow> string list \<Rightarrow> tasks" where
  "tasks_at_exit e args = foldl (step e args) (after_first_wait e args) (fst (inner_main e args))"

section \<open>Scenarios\<close>

text \<open>Concrete environments and outputs on which the theorems below are instantiated.\<close>

definition venv :: "string \<Rightarrow> string" where
  "venv name = ''/venv/bin/'' @ name"

definition programs ::
  "completion \<Rightarrow> completion \<Rightarrow> completion \<Rightarrow> ProcType \<Rightarrow> string list \<Rightarrow> completion" where
  "programs m d k t cmd = (case t of Mypy \<Rightarrow> m | Dmypy \<Rightarrow> d | Kill \<Rightarrow> k)"

definition example_args :: "string list" where
  "example_args = [''src/bmypy.py'']"

definition clean_output :: string where
  "clean_output = ''Success: no issues found in 12 source files'' @ [NL]"

definition errors_output :: string where
  "errors_output = ''src/bmypy.py:35: error: Missing return statement'' @ [NL]
                     @ ''Found 1 error in 1 file (checked 12 source files)'' @ [NL]"

definition traceback :: string where
  "traceback = ''Traceback...'' @ [NL]"

text \<open>The daemon answers first with a clean run.\<close>

definition daemon_wins_env :: env where
  "daemon_wins_env =
     \<lparr>script_path = venv,
      process = programs (Exits clean_output [] 0) (Exits clean_output [] 0) (Exits [] [] 0),
      first_completed = DaemonFirst, within_grace = True\<rparr>"

text \<open>The daemon crashes first; killing it works; the one-shot run then reports an error.\<close>

definition daemon_crash_env :: env where
  "daemon_crash_env =
     \<lparr>script_path = venv,
      process = programs (Exits errors_output [] 1) (Exits [] traceback 2) (Exits [] [] 0),
      first_completed = DaemonFirst, within_grace = True\<rparr>"

text \<open>As before, but the kill command fails as well.\<close>

definition kill_fails_env :: env where
  "kill_fails_env =
     \<lparr>script_path = venv,
      process = programs (Exits errors_output [] 1) (Exits [] traceback 2)
                         (Exits [] ''Daemon has died'' 2),
      first_completed = DaemonFirst, within_grace = True\<rparr>"

text \<open>The one-shot run finishes first and the daemon hangs.\<close>

definition daemon_hangs_env :: env where
  "daemon_hangs_env =
     \<lparr>script_path = venv,
      process = programs (Exits clean_output [] 0) Never (Exits [] [] 0),
      first_completed = SyncFirst, within_grace = False\<rparr>"

text \<open>
  The one-shot run finishes first; within the next second the daemon exits, and its
  output is not valid UTF-8.
\<close>

definition daemon_garbled_env :: env where
  "daemon_garbled_env =
     \<lparr>script_path = venv,
      process = programs (Exits clean_output [] 0) (Raises UnicodeDecodeError) (Exits [] [] 0),
      first_completed = SyncFirst, within_grace = True\<rparr>"

text \<open>The daemon client is not installed.\<close>

definition daemon_missing_env :: env where
  "daemon_missing_env =
     \<lparr>script_path = venv,
      process = programs (Exits clean_output [] 0) (Raises FileNotFoundError) (Exits [] [] 0),
      first_completed = DaemonFirst, within_grace = True\<rparr>"

text \<open>The one-shot run fails first, with a message on its standard error; the daemon
  answers within the next second.\<close>

definition mypy_fails_env :: env where
  "mypy_fails_env =
     \<lparr>script_path = venv,
      process = programs (Exits [] ''mypy: cannot read file'' 2) (Exits clean_output [] 0)
                         (Exits [] [] 0),
      first_completed = SyncFirst, within_grace = True\<rparr>"

text \<open>The daemon crashes first, and the kill command never returns.\<close>

definition kill_hangs_env :: env where
  "kill_hangs_env =
     \<lparr>script_path = venv,
      process = programs (Exits errors_output [] 1) (Exits [] traceback 2) Never,
      first_completed = DaemonFirst, within_grace = True\<rparr>"

text \<open>The daemon crashes first, and the kill command can no longer be launched.\<close>

definition kill_vanished_env :: env where
  "kill_vanished_env =
     \<lparr>script_path = venv,
      process = programs (Exits errors_output [] 1) (Exits [] traceback 2)
                         (Raises FileNotFoundError),
      first_completed = DaemonFirst, within_grace = True\<rparr>"

text \<open>The daemon crashes first, and the kill command writes bytes to its standard error
  that are not valid UTF-8.\<close>

definition kill_garbled_env :: env where
  "kill_garbled_env =
     \<lparr>script_path = venv,
      process = programs (Exits errors_output [] 1) (Exits [] traceback 2)
                         (Raises UnicodeDecodeError),
      first_completed = DaemonFirst, within_grace = True\<rparr>"

text \<open>The one-shot run is killed by signal 9 while the daemon hangs.\<close>

definition mypy_killed_env :: env where
  "mypy_killed_env =
     \<lparr>script_path = venv,
      process = programs (Exits [] [] (- 9)) Never (Exits [] [] 0),
      first_completed = SyncFirst, within_grace = False\<rparr>"

text \<open>The daemon answers first, from a stale state, while the one-shot run finds an error.\<close>

definition daemon_stale_env :: env where
  "daemon_stale_env =
     \<lparr>script_path = venv,
      process = programs (Exits errors_output [] 1) (Exits clean_output [] 0) (Exits [] [] 0),
      first_completed = DaemonFirst, within_grace = True\<rparr>"

text \<open>The daemon answers first with a clean run, and the one-shot run never ends.\<close>

definition mypy_hangs_env :: env where
  "mypy_hangs_env =
     \<lparr>script_path = venv,
      process = programs Never (Exits clean_output [] 0) (Exits [] [] 0),
      first_completed = DaemonFirst, within_grace = True\<rparr>"

text \<open>Both runs are done when the coordinator wakes up; the daemon's is clean.\<close>

definition both_done_env :: env where
  "both_done_env =
     \<lparr>script_path = venv,
      process = programs (Exits errors_output [] 1) (Exits clean_output [] 0) (Exits [] [] 0),
      first_completed = Together, within_grace = True\<rparr>"

text \<open>The one-shot run cannot be decoded, the daemon's run is clean, and both are done
  when the coordinator wakes up.\<close>

definition mypy_garbled_env :: env where
  "mypy_garbled_env =
     \<lparr>script_path = venv,
      process = programs (Raises UnicodeDecodeError) (Exits clean_output [] 0) (Exits [] [] 0),
      first_completed = Together, within_grace = True\<rparr>"

section \<open>Properties of the classifier\<close>

subsection \<open>What the matcher returns\<close>

lemma ends_Chars_iff:
  "(q, ys) \<in> set (ends (Chars w) (p, xs)) \<longleftrightarrow> xs = w @ ys \<and> q = p + length w"
proof -
  have "take (length w) xs = w \<and> ys = drop (length w) xs \<longleftrightarrow> xs = w @ ys"
    by (metis append_eq_conv_conj)
  then show ?thesis by auto
qed

lemma ends_CharRange_Nil: "ends (CharRange lo hi) (p, []) = []"
  by simp

lemma ends_CharRange_Cons:
  "ends (CharRange lo hi) (p, c # cs) = (if in_range lo hi c then [(Suc p, cs)] else [])"
  by simp

lemma ends_Opt_iff:
  "c \<in> set (ends (Opt r) cur) \<longleftrightarrow> c \<in> set (ends r cur) \<or> c = cur"
  by auto

lemma ends_Cat_iff:
  "c \<in> set (ends (Cat r1 r2) cur) \<longleftrightarrow> (\<exists>p xs. (p, xs) \<in> set (ends r1 cur) \<and> c \<in> set (ends r2 (p, xs)))"
  by auto

lemma ends_Empty_iff: "c \<in> set (ends Empty cur) \<longleftrightarrow> c = cur"
  by auto

lemma ends_Bol_iff: "c \<in> set (ends Bol (p, xs)) \<longleftrightarrow> c = (p, xs) \<and> p = 0"
  by auto

lemma ends_Eol_iff: "c \<in> set (ends Eol (p, xs)) \<longleftrightarrow> c = (p, xs) \<and> at_end xs"
  by (auto simp: at_end_def)

lemma repeat_CharRange:
  "length xs \<le> n \<Longrightarrow>
   (q, ys) \<in> set (repeat n (ends (CharRange lo hi)) (p, xs)) \<longleftrightarrow>
   (\<exists>ds. ds \<noteq> [] \<and> list_all (in_range lo hi) ds \<and> xs = ds @ ys \<and> q = p + length ds)"
proof (induction n arbitrary: p xs)
  case 0
  then show ?case by (simp add: ends_CharRange_Nil del: ends.simps)
next
  case (Suc n)
  show ?case
  proof (cases xs)
    case Nil
    then show ?thesis by (simp only: repeat.simps ends_CharRange_Nil) simp
  next
    case (Cons c cs)
    show ?thesis
    proof (cases "in_range lo hi c")
      case False
      then show ?thesis using Cons
        by (auto simp: ends_CharRange_Cons Cons_eq_append_conv simp del: ends.simps)
    next
      case True
      have len: "length cs \<le> n" using Suc.prems Cons by simp
      have "(q, ys) \<in> set (repeat (Suc n) (ends (CharRange lo hi)) (p, xs)) \<longleftrightarrow>
            (q, ys) \<in> set (repeat n (ends (CharRange lo hi)) (Suc p, cs)) \<or> (q, ys) = (Suc p, cs)"
        using Cons True by (auto simp: ends_CharRange_Cons simp del: ends.simps)
      also have "\<dots> \<longleftrightarrow> (\<exists>ds'. ds' \<noteq> [] \<and> list_all (in_range lo hi) ds' \<and> cs = ds' @ ys \<and> q = Suc p + length ds')
                     \<or> (q, ys) = (Suc p, cs)"
        using Suc.IH [OF len] by simp
      also have "\<dots> \<longleftrightarrow> (\<exists>ds'. list_all (in_range lo hi) ds' \<and> cs = ds' @ ys \<and> q = Suc p + length ds')"
        by (cases "q = Suc p") auto
      also have "\<dots> \<longleftrightarrow> (\<exists>ds. ds \<noteq> [] \<and> list_all (in_range lo hi) ds \<and> xs = ds @ ys \<and> q = p + length ds)"
      proof
        assume "\<exists>ds'. list_all (in_range lo hi) ds' \<and> cs = ds' @ ys \<and> q = Suc p + length ds'"
        then obtain ds' where "list_all (in_range lo hi) ds'" "cs = ds' @ ys" "q = Suc p + length ds'"
          by blast
        then have "c # ds' \<noteq> [] \<and> list_all (in_range lo hi) (c # ds') \<and> xs = (c # ds') @ ys
                   \<and> q = p + length (c # ds')"
          using Cons True by simp
        then show "\<exists>ds. ds \<noteq> [] \<and> list_all (in_range lo hi) ds \<and> xs = ds @ ys \<and> q = p + length ds"
          by blast
      next
        assume "\<exists>ds. ds \<noteq> [] \<and> list_all (in_range lo hi) ds \<and> xs = ds @ ys \<and> q = p + length ds"
        then obtain ds where ds: "ds \<noteq> []" "list_all (in_range lo hi) ds" "xs = ds @ ys" "q = p + length ds"
          by blast
        then obtain ds' where "ds = c # ds'" using Cons by (cases ds) auto
        then show "\<exists>ds'. list_all (in_range lo hi) ds' \<and> cs = ds' @ ys \<and> q = Suc p + length ds'"
          using ds Cons by auto
      qed
      finally show ?thesis .
    qed
  qed
qed

lemma ends_digits_iff:
  "(q, ys) \<in> set (ends (OneOrMore (CharRange CHR ''0'' CHR ''9'')) (p, xs)) \<longleftrightarrow>
   (\<exists>ds. digits ds \<and> xs = ds @ ys \<and> q = p + length ds)"
  using repeat_CharRange [of xs "length xs" q ys "CHR ''0''" "CHR ''9''" p]
  by (simp add: digits_def)



lemma denotes_Chars: "denotes (Chars w) (\<lambda>p u ys. u = w)"
  unfolding denotes_def ends_Chars_iff by auto

lemma denotes_digits: "denotes (OneOrMore (CharRange CHR ''0'' CHR ''9'')) (\<lambda>p u ys. digits u)"
  unfolding denotes_def ends_digits_iff by auto

lemma denotes_plural: "denotes (Opt (Chars ''s'')) (\<lambda>p u ys. plural u)"
  unfolding denotes_def ends_Opt_iff ends_Chars_iff plural_def by auto

lemma denotes_Empty: "denotes Empty (\<lambda>p u ys. u = [])"
  unfolding denotes_def ends_Empty_iff by auto

lemma denotes_Bol: "denotes Bol (\<lambda>p u ys. u = [] \<and> p = 0)"
  unfolding denotes_def ends_Bol_iff by auto

lemma denotes_Eol: "denotes Eol (\<lambda>p u ys. u = [] \<and> at_end ys)"
  unfolding denotes_def ends_Eol_iff by auto

lemma denotes_Cat:
  assumes "denotes r1 P" and "denotes r2 Q"
  shows "denotes (Cat r1 r2)
           (\<lambda>p u ys. \<exists>u1 u2. u = u1 @ u2 \<and> P p u1 (u2 @ ys) \<and> Q (p + length u1) u2 ys)"
proof -
  have "(q, ys) \<in> set (ends (Cat r1 r2) (p, xs)) \<longleftrightarrow>
        (\<exists>u. xs = u @ ys \<and> q = p + length u \<and>
           (\<exists>u1 u2. u = u1 @ u2 \<and> P p u1 (u2 @ ys) \<and> Q (p + length u1) u2 ys))"
    (is "?L \<longleftrightarrow> ?R") for p xs q ys
  proof
    assume ?L
    then obtain p' xs' where 1: "(p', xs') \<in> set (ends r1 (p, xs))"
      and 2: "(q, ys) \<in> set (ends r2 (p', xs'))"
      unfolding ends_Cat_iff by blast
    from 1 assms(1) obtain u1 where u1: "xs = u1 @ xs'" "p' = p + length u1" "P p u1 xs'"
      unfolding denotes_def by blast
    from 2 assms(2) obtain u2 where u2: "xs' = u2 @ ys" "q = p' + length u2" "Q p' u2 ys"
      unfolding denotes_def by blast
    have "xs = (u1 @ u2) @ ys \<and> q = p + length (u1 @ u2) \<and>
          (u1 @ u2 = u1 @ u2 \<and> P p u1 (u2 @ ys) \<and> Q (p + length u1) u2 ys)"
      using u1 u2 by simp
    then show ?R by blast
  next
    assume ?R
    then obtain u1 u2 where u: "xs = (u1 @ u2) @ ys" "q = p + length (u1 @ u2)"
      "P p u1 (u2 @ ys)" "Q (p + length u1) u2 ys"
      by blast
    have 1: "(p + length u1, u2 @ ys) \<in> set (ends r1 (p, xs))"
      using assms(1) u(1,3) unfolding denotes_def by simp
    have 2: "(q, ys) \<in> set (ends r2 (p + length u1, u2 @ ys))"
      using assms(2) u(2,4) unfolding denotes_def by simp
    from 1 2 show ?L unfolding ends_Cat_iff by blast
  qed
  then show ?thesis unfolding denotes_def by blast
qed

lemma denotes_cong:
  assumes "denotes r P" and "\<And>p u ys. P p u ys \<longleftrightarrow> Q p u ys"
  shows "denotes r Q"
  using assms unfolding denotes_def by simp


lemma denotes_Bol_Cat:
  assumes "denotes r Q"
  shows "denotes (Cat Bol r) (\<lambda>p u ys. p = 0 \<and> Q p u ys)"
  by (rule denotes_cong [OF denotes_Cat [OF denotes_Bol assms]]) auto

lemma denotes_Chars_Cat:
  assumes "denotes r Q"
  shows "denotes (Cat (Chars w) r) (\<lambda>p u ys. \<exists>v. u = w @ v \<and> Q (p + length w) v ys)"
  by (rule denotes_cong [OF denotes_Cat [OF denotes_Chars assms]]) auto

lemma denotes_digits_Cat:
  assumes "denotes r Q"
  shows "denotes (Cat (OneOrMore (CharRange CHR ''0'' CHR ''9'')) r)
           (\<lambda>p u ys. \<exists>ds v. u = ds @ v \<and> digits ds \<and> Q (p + length ds) v ys)"
  by (rule denotes_cong [OF denotes_Cat [OF denotes_digits assms]]) auto

lemma denotes_plural_Cat:
  assumes "denotes r Q"
  shows "denotes (Cat (Opt (Chars ''s'')) r)
           (\<lambda>p u ys. \<exists>sfx v. u = sfx @ v \<and> plural sfx \<and> Q (p + length sfx) v ys)"
  by (rule denotes_cong [OF denotes_Cat [OF denotes_plural assms]]) auto

lemma denotes_Chars_Eol:
  "denotes (Cat (Chars w) (Cat Eol Empty)) (\<lambda>p u ys. u = w \<and> at_end ys)"
  by (rule denotes_cong [OF denotes_Cat [OF denotes_Chars denotes_Cat [OF denotes_Eol denotes_Empty]]])
     auto

lemmas denotes_intros =
  denotes_Chars_Eol denotes_Bol_Cat denotes_Chars_Cat denotes_digits_Cat denotes_plural_Cat

lemma denotes_NO_ERRORS_RE:
  "denotes NO_ERRORS_RE (\<lambda>p u ys. p = 0 \<and> at_end ys \<and>
     (\<exists>ds sfx. digits ds \<and> plural sfx \<and>
        u = ''Success: no issues found in '' @ ds @ '' source file'' @ sfx @ [NL]))"
  unfolding NO_ERRORS_RE_def seq_def foldr.simps o_apply id_apply
  apply (rule denotes_cong)
   apply (rule denotes_intros)+
  subgoal for p u ys
    apply (rule iffI)
    subgoal by (elim exE conjE, hypsubst) (intro conjI exI; (rule refl | assumption))
    subgoal by (elim exE conjE, hypsubst) (intro conjI exI; (rule refl | assumption))
    done
  done

lemma denotes_WITH_ERRORS_RE:
  "denotes WITH_ERRORS_RE (\<lambda>p u ys. at_end ys \<and>
     (\<exists>d1 s1 d2 s2 d3. digits d1 \<and> plural s1 \<and> digits d2 \<and> plural s2 \<and> digits d3 \<and>
        u = [NL] @ ''Found '' @ d1 @ '' error'' @ s1 @ '' in '' @ d2 @ '' file'' @ s2
              @ '' (checked '' @ d3 @ '' source files)'' @ [NL]))"
  unfolding WITH_ERRORS_RE_def seq_def foldr.simps o_apply id_apply
  apply (rule denotes_cong)
   apply (rule denotes_intros)+
  subgoal for p u ys
    apply (rule iffI)
    subgoal by (elim exE conjE, hypsubst) (intro conjI exI; (rule refl | assumption))
    subgoal by (elim exE conjE, hypsubst) (intro conjI exI; (rule refl | assumption))
    done
  done


lemma search_iff:
  "search r s \<noteq> None \<longleftrightarrow> (\<exists>i \<le> length s. ends r (i, drop i s) \<noteq> [])"
proof -
  define xs where "xs = [0 ..< Suc (length s)]"
  have "search r s \<noteq> None \<longleftrightarrow> List.find (\<lambda>i. ends r (i, drop i s) \<noteq> []) xs \<noteq> None"
    unfolding search_def xs_def [symmetric]
    by (cases "List.find (\<lambda>i. ends r (i, drop i s) \<noteq> []) xs") simp_all
  also have "\<dots> \<longleftrightarrow> (\<exists>i. i \<in> set xs \<and> ends r (i, drop i s) \<noteq> [])"
    by (simp add: find_None_iff)
  also have "\<dots> \<longleftrightarrow> (\<exists>i \<le> length s. ends r (i, drop i s) \<noteq> [])"
    unfolding xs_def by (auto simp: le_less)
  finally show ?thesis .
qed

lemma search_denotes:
  assumes "denotes r P"
  shows "search r s \<noteq> None \<longleftrightarrow> (\<exists>pre u ys. s = pre @ u @ ys \<and> P (length pre) u ys)"
proof
  assume "search r s \<noteq> None"
  then obtain i where i: "i \<le> length s" "ends r (i, drop i s) \<noteq> []"
    unfolding search_iff by blast
  then obtain q ys where "(q, ys) \<in> set (ends r (i, drop i s))"
    by (cases "ends r (i, drop i s)") auto
  then obtain u where u: "drop i s = u @ ys" "P i u ys"
    using assms unfolding denotes_def by blast
  have "s = take i s @ u @ ys \<and> P (length (take i s)) u ys"
    using i(1) u by (simp add: min_def flip: u(1))
  then show "\<exists>pre u ys. s = pre @ u @ ys \<and> P (length pre) u ys" by blast
next
  assume "\<exists>pre u ys. s = pre @ u @ ys \<and> P (length pre) u ys"
  then obtain pre u ys where s: "s = pre @ u @ ys" and P: "P (length pre) u ys" by blast
  have "(length pre + length u, ys) \<in> set (ends r (length pre, u @ ys))"
    using assms P unfolding denotes_def by blast
  then have "ends r (length pre, drop (length pre) s) \<noteq> []"
    using s by auto
  moreover have "length pre \<le> length s" using s by simp
  ultimately show "search r s \<noteq> None" unfolding search_iff by blast
qed

lemma search_NO_ERRORS_RE: "search NO_ERRORS_RE s \<noteq> None \<longleftrightarrow> no_errors_text s"
proof
  assume "search NO_ERRORS_RE s \<noteq> None"
  then obtain pre u ys ds sfx where "s = pre @ u @ ys" "length pre = 0" "at_end ys"
    "digits ds" "plural sfx"
    "u = ''Success: no issues found in '' @ ds @ '' source file'' @ sfx @ [NL]"
    unfolding search_denotes [OF denotes_NO_ERRORS_RE] by blast
  then have "digits ds \<and> plural sfx \<and> at_end ys \<and>
     s = ''Success: no issues found in '' @ ds @ '' source file'' @ sfx @ [NL] @ ys"
    by simp
  then show "no_errors_text s" unfolding no_errors_text_def by blast
next
  assume "no_errors_text s"
  then obtain ds sfx rest where *: "digits ds" "plural sfx" "at_end rest"
    "s = ''Success: no issues found in '' @ ds @ '' source file'' @ sfx @ [NL] @ rest"
    unfolding no_errors_text_def by blast
  define u where "u = ''Success: no issues found in '' @ ds @ '' source file'' @ sfx @ [NL]"
  have "s = [] @ u @ rest" using *(4) by (simp add: u_def)
  moreover have "length ([] :: string) = 0 \<and> at_end rest \<and> (\<exists>ds sfx. digits ds \<and> plural sfx \<and>
        u = ''Success: no issues found in '' @ ds @ '' source file'' @ sfx @ [NL])"
    using * u_def by blast
  ultimately show "search NO_ERRORS_RE s \<noteq> None"
    unfolding search_denotes [OF denotes_NO_ERRORS_RE] by blast
qed

lemma search_WITH_ERRORS_RE: "search WITH_ERRORS_RE s \<noteq> None \<longleftrightarrow> with_errors_text s"
proof
  assume "search WITH_ERRORS_RE s \<noteq> None"
  then obtain pre u ys d1 s1 d2 s2 d3 where "s = pre @ u @ ys" "at_end ys"
    "digits d1" "plural s1" "digits d2" "plural s2" "digits d3"
    "u = [NL] @ ''Found '' @ d1 @ '' error'' @ s1 @ '' in '' @ d2 @ '' file'' @ s2
              @ '' (checked '' @ d3 @ '' source files)'' @ [NL]"
    unfolding search_denotes [OF denotes_WITH_ERRORS_RE] by blast
  then have "digits d1 \<and> plural s1 \<and> digits d2 \<and> plural s2 \<and> digits d3 \<and> at_end ys \<and>
        s = pre @ [NL] @ ''Found '' @ d1 @ '' error'' @ s1 @ '' in '' @ d2 @ '' file'' @ s2
              @ '' (checked '' @ d3 @ '' source files)'' @ [NL] @ ys"
    by simp
  then show "with_errors_text s" unfolding with_errors_text_def by blast
next
  assume "with_errors_text s"
  then obtain pre d1 s1 d2 s2 d3 rest where *: "digits d1" "plural s1" "digits d2" "plural s2"
    "digits d3" "at_end rest"
    "s = pre @ [NL] @ ''Found '' @ d1 @ '' error'' @ s1 @ '' in '' @ d2 @ '' file'' @ s2
              @ '' (checked '' @ d3 @ '' source files)'' @ [NL] @ rest"
    unfolding with_errors_text_def by blast
  define u where "u = [NL] @ ''Found '' @ d1 @ '' error'' @ s1 @ '' in '' @ d2 @ '' file'' @ s2
              @ '' (checked '' @ d3 @ '' source files)'' @ [NL]"
  have "s = pre @ u @ rest" using *(7) by (simp add: u_def)
  moreover have "at_end rest \<and> (\<exists>d1 s1 d2 s2 d3. digits d1 \<and> plural s1 \<and> digits d2 \<and> plural s2 \<and>
        digits d3 \<and>
        u = [NL] @ ''Found '' @ d1 @ '' error'' @ s1 @ '' in '' @ d2 @ '' file'' @ s2
              @ '' (checked '' @ d3 @ '' source files)'' @ [NL])"
    using * u_def by blast
  ultimately show "search WITH_ERRORS_RE s \<noteq> None"
    unfolding search_denotes [OF denotes_WITH_ERRORS_RE] by blast
qed

subsection \<open>The classifier's verdict\<close>

lemma is_successful_result_search:
  "is_successful_result result \<longleftrightarrow>
     (exit_code result = 0 \<or> exit_code result = 1) \<and> stderr result = [] \<and>
     (search NO_ERRORS_RE (stdout result) \<noteq> None \<or> search WITH_ERRORS_RE (stdout result) \<noteq> None)"
  unfolding is_successful_result_def by auto

lemma no_errors_text_clean_output: "no_errors_text clean_output"
proof -
  have "digits ''12'' \<and> plural ''s'' \<and> at_end [] \<and>
        clean_output = ''Success: no issues found in '' @ ''12'' @ '' source file'' @ ''s'' @ [NL] @ []"
    by (simp add: digits_def plural_def at_end_def clean_output_def in_range_def)
  then show ?thesis unfolding no_errors_text_def by blast
qed

text \<open>
  The matcher on concrete outputs: the success line with and without the plural, with
  one more newline, and the outputs the anchors exclude (text after the success line,
  a footer that is the first line of the output, a footer with \<^verbatim>\<open>source file\<close> in the
  singular).
\<close>

lemma search_examples:
  "search NO_ERRORS_RE (''Success: no issues found in 12 source files'' @ [NL]) = Some (0, 44)"
  "search NO_ERRORS_RE (''Success: no issues found in 1 source file'' @ [NL]) = Some (0, 42)"
  "search NO_ERRORS_RE (''Success: no issues found in 1 source file'' @ [NL, NL]) = Some (0, 42)"
  "search NO_ERRORS_RE (''Success: no issues found in 1 source file'' @ [NL] @ ''x'') = None"
  "search NO_ERRORS_RE (''Success: no issues found in  source files'' @ [NL]) = None"
  "search WITH_ERRORS_RE errors_output = Some (48, 99)"
  "search WITH_ERRORS_RE (''Found 1 error in 1 file (checked 12 source files)'' @ [NL]) = None"
  "search WITH_ERRORS_RE
     ([NL] @ ''Found 1 error in 1 file (checked 1 source file)'' @ [NL]) = None"
  "search WITH_ERRORS_RE
     ([NL] @ ''Found 2 errors in 2 files (checked 3 source files)'' @ [NL, NL]) = Some (0, 52)"
  by code_simp+

lemma is_successful_result_texts:
  "is_successful_result result \<longleftrightarrow>
     (exit_code result = 0 \<or> exit_code result = 1) \<and> stderr result = [] \<and>
     (no_errors_text (stdout result) \<or> with_errors_text (stdout result))"
  unfolding is_successful_result_search search_NO_ERRORS_RE search_WITH_ERRORS_RE ..

text \<open>
  C1. The classifier returns true for exactly the results whose exit code is 0 or 1,
  whose stderr is empty, and whose stdout matches one of the two patterns; for every
  other combination it returns false. The two patterns are written out: stdout is the
  success line, from the first character of the output to its end, or stdout ends with
  the summary footer on a line of its own (in both cases one more newline may follow,
  as \<^verbatim>\<open>$\<close> allows).
\<close>

theorem is_successful_result_iff:
  "is_successful_result result \<longleftrightarrow>
     (exit_code result = 0 \<or> exit_code result = 1) \<and> stderr result = [] \<and>
     (no_errors_text (stdout result) \<or> with_errors_text (stdout result))"
  by (rule is_successful_result_texts)

theorem is_successful_result_iff_witness:
  "is_successful_result \<lparr>type = Dmypy, stdout = clean_output, stderr = [], exit_code = 0\<rparr>
   \<and> \<not> is_successful_result \<lparr>type = Dmypy, stdout = [], stderr = traceback, exit_code = 2\<rparr>"
  using is_successful_result_iff [of "\<lparr>type = Dmypy, stdout = clean_output, stderr = [], exit_code = 0\<rparr>"]
    is_successful_result_iff [of "\<lparr>type = Dmypy, stdout = [], stderr = traceback, exit_code = 2\<rparr>"]
    no_errors_text_clean_output
  by simp

text \<open>
  C9. The verdict depends only on stdout, stderr and the exit code: two results that
  agree on these three fields get the same verdict, whatever their types.
\<close>

theorem is_successful_result_type_irrelevant:
  assumes "stdout r1 = stdout r2" and "stderr r1 = stderr r2" and "exit_code r1 = exit_code r2"
  shows "is_successful_result r1 = is_successful_result r2"
  using assms unfolding is_successful_result_def by simp

theorem is_successful_result_type_irrelevant_witness:
  "is_successful_result \<lparr>type = Kill, stdout = clean_output, stderr = [], exit_code = 0\<rparr>
   = is_successful_result \<lparr>type = Mypy, stdout = clean_output, stderr = [], exit_code = 0\<rparr>"
  using is_successful_result_type_irrelevant
    [of "\<lparr>type = Kill, stdout = clean_output, stderr = [], exit_code = 0\<rparr>"
        "\<lparr>type = Mypy, stdout = clean_output, stderr = [], exit_code = 0\<rparr>"]
  by simp

section \<open>Properties of the race\<close>

subsection \<open>Events of the runner and of the coordinator\<close>

lemma fst_run_mypy:
  "fst (run_mypy e args) = [Log DEBUG (Launching Mypy), Exec Mypy (script_path e ''mypy'' # args)]"
  by (simp add: run_mypy_def wait_process_results_def)

lemma fst_run_dmypy:
  "fst (run_dmypy e args)
     = [Log DEBUG (Launching Dmypy), Exec Dmypy ([script_path e ''dmypy'', ''run'', ''--''] @ args)]"
  by (simp add: run_dmypy_def wait_process_results_def)

lemma launch_events:
  "launch e args =
     [Create_task Dmypy, Create_task Mypy, Wait_first,
      Log DEBUG (Launching Dmypy), Exec Dmypy ([script_path e ''dmypy'', ''run'', ''--''] @ args),
      Log DEBUG (Launching Mypy), Exec Mypy (script_path e ''mypy'' # args)]"
  by (simp add: launch_def fst_run_mypy fst_run_dmypy)

lemma type_run_mypy: "snd (run_mypy e args) = Returned r \<Longrightarrow> type r = Mypy"
  by (auto simp: run_mypy_def wait_process_results_def split: completion.splits)

lemma type_run_dmypy: "snd (run_dmypy e args) = Returned r \<Longrightarrow> type r = Dmypy"
  by (auto simp: run_dmypy_def wait_process_results_def split: completion.splits)

lemma kill_mypy_Exits:
  assumes "process e Kill [script_path e ''dmypy'', ''kill''] = Exits kout kerr kcode"
  shows "kill_mypy e =
           ([Exec Kill [script_path e ''dmypy'', ''kill''],
             if kcode \<noteq> 0 \<or> kerr \<noteq> [] then Log WARNING (Failed_to_kill kcode kerr)
             else Log INFO Dmypy_killed],
            Returned ())"
  using assms by (simp add: kill_mypy_def wait_process_results_def)

lemma stdout_of_append: "stdout_of (xs @ ys) = stdout_of xs @ stdout_of ys"
  by (induction xs rule: stdout_of.induct) simp_all

lemma stderr_of_append: "stderr_of (xs @ ys) = stderr_of xs @ stderr_of ys"
  by (induction xs rule: stderr_of.induct) simp_all

lemma kill_mypy_silent: "stdout_of (fst (kill_mypy e)) = [] \<and> stderr_of (fst (kill_mypy e)) = []"
  by (simp add: kill_mypy_def wait_process_results_def stdout_of_append stderr_of_append
           split: completion.splits)

lemma coordinate_silent:
  "stdout_of (fst (coordinate e args)) = [] \<and> stderr_of (fst (coordinate e args)) = []"
  unfolding coordinate_def
  by (simp add: launch_events kill_mypy_silent stdout_of_append stderr_of_append Let_def
           split: option.splits sum.splits awaited.splits)

lemma report_streams:
  "stdout_of (fst (report result)) = stdout result \<and>
   stderr_of (fst (report result)) = (if stderr result = [] then [] else ''STDERR:'' @ [NL] @ stderr result)"
  by (simp add: report_def)

lemma inner_main_Returned:
  assumes "args \<noteq> []" and "coordinate e args = (evs, Returned result)"
  shows "inner_main e args = (evs @ fst (report result), SystemExit (exit_code result))"
  using assms by (simp add: inner_main_def report_def)

lemma inner_main_Raised:
  assumes "args \<noteq> []" and "coordinate e args = (evs, Raised x)"
  shows "inner_main e args = (evs, Uncaught x)"
  using assms by (simp add: inner_main_def)

lemma coordinate_daemon_accepted:
  assumes "wait_first e args = Some done" and "Dmypy \<in> done"
    and "snd (run_dmypy e args) = Returned result" and "is_successful_result result"
  shows "coordinate e args =
           (launch e args @ [Log DEBUG (Dmypy_finished (exit_code result)), Cancel Mypy],
            Returned result)"
  using assms by (simp add: coordinate_def task_result_def)

lemma coordinate_daemon_rejected:
  assumes "wait_first e args = Some done" and "Dmypy \<in> done"
    and "snd (run_dmypy e args) = Returned rejected" and "\<not> is_successful_result rejected"
    and "process e Kill [script_path e ''dmypy'', ''kill''] = Exits kout kerr kcode"
  shows "coordinate e args =
           (launch e args
              @ [Log WARNING (Dmypy_exited (exit_code rejected) (stderr rejected) (stdout rejected)),
                 Exec Kill [script_path e ''dmypy'', ''kill''],
                 if kcode \<noteq> 0 \<or> kerr \<noteq> [] then Log WARNING (Failed_to_kill kcode kerr)
                 else Log INFO Dmypy_killed,
                 Wait_for Mypy None],
            snd (run_mypy e args))"
  using assms(1-4) unfolding coordinate_def
  by (simp add: task_result_def kill_mypy_Exits [OF assms(5)] wait_for_def del: append_Cons)

lemma coordinate_sync_first:
  assumes "wait_first e args = Some done" and "Dmypy \<notin> done" and "Mypy \<in> done"
    and "snd (run_mypy e args) = Returned result"
  shows "coordinate e args =
           (case grace_wait e args of
              Returned _ \<Rightarrow>
                (launch e args @ [Log DEBUG Mypy_finished_first, Wait_for Dmypy (Some 1)],
                 Returned result)
            | Raised x \<Rightarrow>
                if x = TimeoutError
                then (launch e args @ [Log DEBUG Mypy_finished_first, Wait_for Dmypy (Some 1),
                                        Log DEBUG Timeout_waiting, Cancel Dmypy],
                      Returned result)
                else (launch e args @ [Log DEBUG Mypy_finished_first, Wait_for Dmypy (Some 1)],
                      Raised x)
            | Pending \<Rightarrow>
                (launch e args @ [Log DEBUG Mypy_finished_first, Wait_for Dmypy (Some 1)],
                 Pending))"
  using assms unfolding coordinate_def
  by (simp add: task_result_def split: awaited.splits)

lemma inner_main_reports:
  assumes "args \<noteq> []" and "snd (coordinate e args) = Returned result"
  shows "inner_main e args = (fst (coordinate e args) @ fst (report result), snd (report result))"
    and "stdout_of (fst (inner_main e args)) = stdout result"
    and "stderr_of (fst (inner_main e args))
           = (if stderr result = [] then [] else ''STDERR:'' @ [NL] @ stderr result)"
    and "snd (inner_main e args) = SystemExit (exit_code result)"
proof -
  obtain evs where c: "coordinate e args = (evs, Returned result)"
    using assms(2) by (cases "coordinate e args") simp
  show 1: "inner_main e args = (fst (coordinate e args) @ fst (report result), snd (report result))"
    using assms(1) c by (simp add: inner_main_def)
  show "stdout_of (fst (inner_main e args)) = stdout result"
    unfolding 1 using coordinate_silent [of e args] report_streams [of result]
    by (simp add: stdout_of_append)
  show "stderr_of (fst (inner_main e args))
           = (if stderr result = [] then [] else ''STDERR:'' @ [NL] @ stderr result)"
    unfolding 1 using coordinate_silent [of e args] report_streams [of result]
    by (simp add: stderr_of_append)
  show "snd (inner_main e args) = SystemExit (exit_code result)"
    unfolding 1 by (simp add: report_def)
qed

lemma is_successful_result_stderr: "is_successful_result result \<Longrightarrow> stderr result = []"
  unfolding is_successful_result_def by (auto split: if_splits)

subsection \<open>Facts about the scenarios\<close>

lemma clean_result_successful:
  "is_successful_result \<lparr>type = t, stdout = clean_output, stderr = [], exit_code = 0\<rparr>"
  using no_errors_text_clean_output
  by (simp add: is_successful_result_texts)

lemma crash_result_unsuccessful:
  "\<not> is_successful_result \<lparr>type = t, stdout = [], stderr = traceback, exit_code = 2\<rparr>"
  by (simp add: is_successful_result_def)

lemmas scenario_defs =
  daemon_wins_env_def daemon_crash_env_def kill_fails_env_def daemon_hangs_env_def
  daemon_garbled_env_def daemon_missing_env_def mypy_fails_env_def
  programs_def example_args_def venv_def
  run_mypy_def run_dmypy_def wait_process_results_def wait_first_def grace_wait_def wait_for_def

subsection \<open>The daemon task finishes first\<close>

text \<open>
  C4. If the daemon task is among the tasks that finished first and its result is
  classified as trustworthy, the one-shot task is cancelled and the reported outcome is
  the daemon's result: its stdout is what is written to standard output, its (empty)
  stderr leaves standard error untouched, and its exit code is the exit code.
\<close>

theorem daemon_trustworthy_reported:
  assumes "args \<noteq> []"
    and "wait_first e args = Some done" and "Dmypy \<in> done"
    and "snd (run_dmypy e args) = Returned result" and "is_successful_result result"
  shows "coordinate e args =
           (launch e args @ [Log DEBUG (Dmypy_finished (exit_code result)), Cancel Mypy],
            Returned result)
       \<and> inner_main e args =
           (launch e args @ [Log DEBUG (Dmypy_finished (exit_code result)), Cancel Mypy,
                             Stdout_write (stdout result)],
            SystemExit (exit_code result))
       \<and> stdout_of (fst (inner_main e args)) = stdout result
       \<and> stderr_of (fst (inner_main e args)) = stderr result"
proof -
  have c: "coordinate e args =
           (launch e args @ [Log DEBUG (Dmypy_finished (exit_code result)), Cancel Mypy],
            Returned result)"
    by (rule coordinate_daemon_accepted [OF assms(2-5)])
  have quiet: "stderr result = []"
    by (rule is_successful_result_stderr [OF assms(5)])
  have r: "snd (coordinate e args) = Returned result"
    using c by simp
  show ?thesis
    using c quiet inner_main_reports [OF assms(1) r] by (simp add: report_def)
qed

theorem daemon_trustworthy_reported_witness:
  "wait_first daemon_wins_env example_args = Some {Dmypy}
   \<and> is_successful_result \<lparr>type = Dmypy, stdout = clean_output, stderr = [], exit_code = 0\<rparr>
   \<and> inner_main daemon_wins_env example_args =
       ([Create_task Dmypy, Create_task Mypy, Wait_first,
         Log DEBUG (Launching Dmypy),
         Exec Dmypy [''/venv/bin/dmypy'', ''run'', ''--'', ''src/bmypy.py''],
         Log DEBUG (Launching Mypy), Exec Mypy [''/venv/bin/mypy'', ''src/bmypy.py''],
         Log DEBUG (Dmypy_finished 0), Cancel Mypy, Stdout_write clean_output],
        SystemExit 0)"
  using daemon_trustworthy_reported
    [of example_args daemon_wins_env "{Dmypy}"
        "\<lparr>type = Dmypy, stdout = clean_output, stderr = [], exit_code = 0\<rparr>"]
    clean_result_successful [of Dmypy]
  by (simp add: scenario_defs launch_events)

lemmas more_scenario_defs =
  kill_hangs_env_def kill_vanished_env_def kill_garbled_env_def mypy_killed_env_def
  daemon_stale_env_def mypy_hangs_env_def both_done_env_def mypy_garbled_env_def

lemma coordinate_daemon_rejected_kill_Raises:
  assumes "wait_first e args = Some done" and "Dmypy \<in> done"
    and "snd (run_dmypy e args) = Returned rejected" and "\<not> is_successful_result rejected"
    and "process e Kill [script_path e ''dmypy'', ''kill''] = Raises x"
  shows "coordinate e args =
           (launch e args
              @ [Log WARNING (Dmypy_exited (exit_code rejected) (stderr rejected) (stdout rejected)),
                 Exec Kill [script_path e ''dmypy'', ''kill'']],
            Raised x)"
  using assms unfolding coordinate_def
  by (simp add: task_result_def kill_mypy_def wait_process_results_def)

lemma coordinate_daemon_rejected_kill_Never:
  assumes "wait_first e args = Some done" and "Dmypy \<in> done"
    and "snd (run_dmypy e args) = Returned rejected" and "\<not> is_successful_result rejected"
    and "process e Kill [script_path e ''dmypy'', ''kill''] = Never"
  shows "coordinate e args =
           (launch e args
              @ [Log WARNING (Dmypy_exited (exit_code rejected) (stderr rejected) (stdout rejected)),
                 Exec Kill [script_path e ''dmypy'', ''kill'']],
            Pending)"
  using assms unfolding coordinate_def
  by (simp add: task_result_def kill_mypy_def wait_process_results_def)

lemma inner_main_Pending:
  assumes "args \<noteq> []" and "coordinate e args = (evs, Pending)"
  shows "inner_main e args = (evs, Blocked)"
  using assms by (simp add: inner_main_def)

text \<open>
  C3, counterexample. The daemon task finishes first with an untrustworthy result and the
  one-shot run has an answer, but the kill command can no longer be launched: its
  \<open>FileNotFoundError\<close> leaves \<^verbatim>\<open>inner_main\<close>, the one-shot task is never awaited and
  nothing is reported. When the kill command never returns instead, the coordinator
  waits for it forever, and again the one-shot task is never awaited.
\<close>

theorem kill_run_can_end_the_fallback:
  "wait_first kill_vanished_env example_args = Some {Dmypy}
   \<and> \<not> is_successful_result \<lparr>type = Dmypy, stdout = [], stderr = traceback, exit_code = 2\<rparr>
   \<and> snd (run_mypy kill_vanished_env example_args) =
       Returned \<lparr>type = Mypy, stdout = errors_output, stderr = [], exit_code = 1\<rparr>
   \<and> inner_main kill_vanished_env example_args =
       (launch kill_vanished_env example_args
          @ [Log WARNING (Dmypy_exited 2 traceback []), Exec Kill [''/venv/bin/dmypy'', ''kill'']],
        Uncaught FileNotFoundError)
   \<and> Wait_for Mypy None \<notin> set (fst (inner_main kill_vanished_env example_args))
   \<and> stdout_of (fst (inner_main kill_vanished_env example_args)) = []
   \<and> inner_main kill_hangs_env example_args =
       (launch kill_hangs_env example_args
          @ [Log WARNING (Dmypy_exited 2 traceback []), Exec Kill [''/venv/bin/dmypy'', ''kill'']],
        Blocked)
   \<and> Wait_for Mypy None \<notin> set (fst (inner_main kill_hangs_env example_args))"
proof -
  have a: "example_args \<noteq> []"
    by (simp add: example_args_def)
  have u: "\<not> is_successful_result \<lparr>type = Dmypy, stdout = [], stderr = traceback, exit_code = 2\<rparr>"
    by (rule crash_result_unsuccessful)
  have w: "wait_first kill_vanished_env example_args = Some {Dmypy}"
    by (simp add: scenario_defs more_scenario_defs)
  have d: "snd (run_dmypy kill_vanished_env example_args) =
       Returned \<lparr>type = Dmypy, stdout = [], stderr = traceback, exit_code = 2\<rparr>"
    by (simp add: scenario_defs more_scenario_defs)
  have m: "snd (run_mypy kill_vanished_env example_args) =
       Returned \<lparr>type = Mypy, stdout = errors_output, stderr = [], exit_code = 1\<rparr>"
    by (simp add: scenario_defs more_scenario_defs)
  have k: "process kill_vanished_env Kill [script_path kill_vanished_env ''dmypy'', ''kill'']
             = Raises FileNotFoundError"
    by (simp add: scenario_defs more_scenario_defs)
  have p: "script_path kill_vanished_env ''dmypy'' = ''/venv/bin/dmypy''"
    by (simp add: kill_vanished_env_def venv_def)
  have i: "inner_main kill_vanished_env example_args =
       (launch kill_vanished_env example_args
          @ [Log WARNING (Dmypy_exited 2 traceback []), Exec Kill [''/venv/bin/dmypy'', ''kill'']],
        Uncaught FileNotFoundError)"
    using inner_main_Raised [OF a coordinate_daemon_rejected_kill_Raises [OF w _ d u k]] p
    by simp
  have w': "wait_first kill_hangs_env example_args = Some {Dmypy}"
    by (simp add: scenario_defs more_scenario_defs)
  have d': "snd (run_dmypy kill_hangs_env example_args) =
       Returned \<lparr>type = Dmypy, stdout = [], stderr = traceback, exit_code = 2\<rparr>"
    by (simp add: scenario_defs more_scenario_defs)
  have k': "process kill_hangs_env Kill [script_path kill_hangs_env ''dmypy'', ''kill''] = Never"
    by (simp add: scenario_defs more_scenario_defs)
  have p': "script_path kill_hangs_env ''dmypy'' = ''/venv/bin/dmypy''"
    by (simp add: kill_hangs_env_def venv_def)
  have i': "inner_main kill_hangs_env example_args =
       (launch kill_hangs_env example_args
          @ [Log WARNING (Dmypy_exited 2 traceback []), Exec Kill [''/venv/bin/dmypy'', ''kill'']],
        Blocked)"
    using inner_main_Pending [OF a coordinate_daemon_rejected_kill_Never [OF w' _ d' u k']] p'
    by simp
  show ?thesis
    unfolding i i' using w u m by (simp add: launch_events stdout_of_append)
qed

text \<open>
  C3, amended. If the daemon task is among the tasks that finished first and its result
  is classified as untrustworthy, the kill command (a process run of its own) is issued
  and awaited: while it does not return the coordinator goes no further, and an
  exception of that run leaves \<^verbatim>\<open>inner_main\<close>. Once the kill run has exited, with any
  status, the coordinator awaits the one-shot task with no timeout: while that task does
  not end neither does the program, an exception of the task leaves \<^verbatim>\<open>inner_main\<close>, and
  the result the task returns is the reported outcome.
\<close>

theorem daemon_untrustworthy_falls_back:
  assumes "args \<noteq> []"
    and "wait_first e args = Some done" and "Dmypy \<in> done"
    and "snd (run_dmypy e args) = Returned rejected" and "\<not> is_successful_result rejected"
  shows "inner_main e args =
     (case process e Kill [script_path e ''dmypy'', ''kill''] of
        Never \<Rightarrow>
          (launch e args
             @ [Log WARNING (Dmypy_exited (exit_code rejected) (stderr rejected) (stdout rejected)),
                Exec Kill [script_path e ''dmypy'', ''kill'']],
           Blocked)
      | Raises x \<Rightarrow>
          (launch e args
             @ [Log WARNING (Dmypy_exited (exit_code rejected) (stderr rejected) (stdout rejected)),
                Exec Kill [script_path e ''dmypy'', ''kill'']],
           Uncaught x)
      | Exits kout kerr kcode \<Rightarrow>
          (case snd (run_mypy e args) of
             Pending \<Rightarrow>
               (launch e args
                  @ [Log WARNING
                       (Dmypy_exited (exit_code rejected) (stderr rejected) (stdout rejected)),
                     Exec Kill [script_path e ''dmypy'', ''kill''],
                     if kcode \<noteq> 0 \<or> kerr \<noteq> [] then Log WARNING (Failed_to_kill kcode kerr)
                     else Log INFO Dmypy_killed,
                     Wait_for Mypy None],
                Blocked)
           | Raised x \<Rightarrow>
               (launch e args
                  @ [Log WARNING
                       (Dmypy_exited (exit_code rejected) (stderr rejected) (stdout rejected)),
                     Exec Kill [script_path e ''dmypy'', ''kill''],
                     if kcode \<noteq> 0 \<or> kerr \<noteq> [] then Log WARNING (Failed_to_kill kcode kerr)
                     else Log INFO Dmypy_killed,
                     Wait_for Mypy None],
                Uncaught x)
           | Returned result \<Rightarrow>
               (launch e args
                  @ [Log WARNING
                       (Dmypy_exited (exit_code rejected) (stderr rejected) (stdout rejected)),
                     Exec Kill [script_path e ''dmypy'', ''kill''],
                     if kcode \<noteq> 0 \<or> kerr \<noteq> [] then Log WARNING (Failed_to_kill kcode kerr)
                     else Log INFO Dmypy_killed,
                     Wait_for Mypy None]
                  @ fst (report result),
                SystemExit (exit_code result))))"
proof (cases "process e Kill [script_path e ''dmypy'', ''kill'']")
  case (Exits kout kerr kcode)
  note c = coordinate_daemon_rejected [OF assms(2-5) Exits]
  show ?thesis
  proof (cases "snd (run_mypy e args)")
    case (Returned result)
    show ?thesis
      using inner_main_Returned [OF assms(1) c [unfolded Returned]] Exits Returned by simp
  next
    case (Raised x)
    show ?thesis
      using inner_main_Raised [OF assms(1) c [unfolded Raised]] Exits Raised by simp
  next
    case Pending
    show ?thesis
      using inner_main_Pending [OF assms(1) c [unfolded Pending]] Exits Pending by simp
  qed
next
  case (Raises x)
  show ?thesis
    using inner_main_Raised [OF assms(1) coordinate_daemon_rejected_kill_Raises [OF assms(2-5) Raises]]
      Raises by simp
next
  case Never
  show ?thesis
    using inner_main_Pending [OF assms(1) coordinate_daemon_rejected_kill_Never [OF assms(2-5) Never]]
      Never by simp
qed

theorem daemon_untrustworthy_falls_back_witness:
  "example_args \<noteq> []
   \<and> wait_first daemon_crash_env example_args = Some {Dmypy}
   \<and> snd (run_dmypy daemon_crash_env example_args) =
       Returned \<lparr>type = Dmypy, stdout = [], stderr = traceback, exit_code = 2\<rparr>
   \<and> \<not> is_successful_result \<lparr>type = Dmypy, stdout = [], stderr = traceback, exit_code = 2\<rparr>
   \<and> inner_main daemon_crash_env example_args =
       (launch daemon_crash_env example_args
          @ [Log WARNING (Dmypy_exited 2 traceback []),
             Exec Kill [''/venv/bin/dmypy'', ''kill''], Log INFO Dmypy_killed,
             Wait_for Mypy None, Stdout_write errors_output],
        SystemExit 1)
   \<and> wait_first kill_hangs_env example_args = Some {Dmypy}
   \<and> snd (run_dmypy kill_hangs_env example_args) =
       Returned \<lparr>type = Dmypy, stdout = [], stderr = traceback, exit_code = 2\<rparr>
   \<and> inner_main kill_hangs_env example_args =
       (launch kill_hangs_env example_args
          @ [Log WARNING (Dmypy_exited 2 traceback []), Exec Kill [''/venv/bin/dmypy'', ''kill'']],
        Blocked)"
proof -
  have a: "example_args \<noteq> []"
    by (simp add: example_args_def)
  have u: "\<not> is_successful_result \<lparr>type = Dmypy, stdout = [], stderr = traceback, exit_code = 2\<rparr>"
    by (rule crash_result_unsuccessful)
  have w: "wait_first daemon_crash_env example_args = Some {Dmypy}"
    by (simp add: scenario_defs)
  have d: "snd (run_dmypy daemon_crash_env example_args) =
       Returned \<lparr>type = Dmypy, stdout = [], stderr = traceback, exit_code = 2\<rparr>"
    by (simp add: scenario_defs)
  have k: "process daemon_crash_env Kill [script_path daemon_crash_env ''dmypy'', ''kill'']
             = Exits [] [] 0"
    by (simp add: scenario_defs)
  have m: "snd (run_mypy daemon_crash_env example_args) =
       Returned \<lparr>type = Mypy, stdout = errors_output, stderr = [], exit_code = 1\<rparr>"
    by (simp add: scenario_defs)
  have p: "script_path daemon_crash_env ''dmypy'' = ''/venv/bin/dmypy''"
    by (simp add: daemon_crash_env_def venv_def)
  have i: "inner_main daemon_crash_env example_args =
       (launch daemon_crash_env example_args
          @ [Log WARNING (Dmypy_exited 2 traceback []),
             Exec Kill [''/venv/bin/dmypy'', ''kill''], Log INFO Dmypy_killed,
             Wait_for Mypy None, Stdout_write errors_output],
        SystemExit 1)"
    using daemon_untrustworthy_falls_back [OF a w _ d u] k m p by (simp add: report_def)
  have w': "wait_first kill_hangs_env example_args = Some {Dmypy}"
    by (simp add: scenario_defs more_scenario_defs)
  have d': "snd (run_dmypy kill_hangs_env example_args) =
       Returned \<lparr>type = Dmypy, stdout = [], stderr = traceback, exit_code = 2\<rparr>"
    by (simp add: scenario_defs more_scenario_defs)
  have k': "process kill_hangs_env Kill [script_path kill_hangs_env ''dmypy'', ''kill''] = Never"
    by (simp add: scenario_defs more_scenario_defs)
  have p': "script_path kill_hangs_env ''dmypy'' = ''/venv/bin/dmypy''"
    by (simp add: kill_hangs_env_def venv_def)
  have i': "inner_main kill_hangs_env example_args =
       (launch kill_hangs_env example_args
          @ [Log WARNING (Dmypy_exited 2 traceback []), Exec Kill [''/venv/bin/dmypy'', ''kill'']],
        Blocked)"
    using daemon_untrustworthy_falls_back [OF a w' _ d' u] k' p' by simp
  show ?thesis
    using a u w d i w' d' i' by blast
qed

text \<open>
  The wait for the one-shot task has no timeout: while that task does not finish, the
  program does not end.
\<close>

lemma daemon_untrustworthy_waits:
  assumes "args \<noteq> []"
    and "wait_first e args = Some done" and "Dmypy \<in> done"
    and "snd (run_dmypy e args) = Returned rejected" and "\<not> is_successful_result rejected"
    and "process e Kill [script_path e ''dmypy'', ''kill''] = Exits kout kerr kcode"
    and "snd (run_mypy e args) = Pending"
  shows "snd (inner_main e args) = Blocked"
proof -
  have "snd (coordinate e args) = Pending"
    using coordinate_daemon_rejected [OF assms(2-6)] assms(7) by simp
  then show ?thesis
    using assms(1) by (cases "coordinate e args") (simp add: inner_main_def)
qed

lemma run_mypy_unchanged_by_kill:
  "run_mypy (e\<lparr>process := (process e)(Kill := k)\<rparr>) args = run_mypy e args"
  by (simp add: run_mypy_def wait_process_results_def)

lemma run_dmypy_unchanged_by_kill:
  "run_dmypy (e\<lparr>process := (process e)(Kill := k)\<rparr>) args = run_dmypy e args"
  by (simp add: run_dmypy_def wait_process_results_def)

lemma wait_first_unchanged_by_kill:
  "wait_first (e\<lparr>process := (process e)(Kill := k)\<rparr>) args = wait_first e args"
  unfolding wait_first_def run_mypy_unchanged_by_kill run_dmypy_unchanged_by_kill
  by (simp split: awaited.splits)

lemma launch_unchanged_by_kill:
  "launch (e\<lparr>process := (process e)(Kill := k)\<rparr>) args = launch e args"
  unfolding launch_def run_mypy_unchanged_by_kill run_dmypy_unchanged_by_kill ..

lemmas run_unchanged_by_kill =
  run_mypy_unchanged_by_kill run_dmypy_unchanged_by_kill wait_first_unchanged_by_kill
  launch_unchanged_by_kill

text \<open>
  C10, counterexample. The daemon task finishes first with an untrustworthy result, and
  the kill command writes to its standard error bytes that are not valid UTF-8:
  \<^verbatim>\<open>wait_process_results\<close> raises \<open>UnicodeDecodeError\<close> when it decodes them,
  \<^verbatim>\<open>kill_mypy\<close> does not return, nothing is logged about the kill, and the exception
  leaves \<^verbatim>\<open>inner_main\<close> before the one-shot task is awaited: its result is not reported.
\<close>

theorem kill_failure_can_be_fatal:
  "wait_first kill_garbled_env example_args = Some {Dmypy}
   \<and> snd (run_mypy kill_garbled_env example_args) =
       Returned \<lparr>type = Mypy, stdout = errors_output, stderr = [], exit_code = 1\<rparr>
   \<and> kill_mypy kill_garbled_env =
       ([Exec Kill [''/venv/bin/dmypy'', ''kill'']], Raised UnicodeDecodeError)
   \<and> inner_main kill_garbled_env example_args =
       (launch kill_garbled_env example_args
          @ [Log WARNING (Dmypy_exited 2 traceback []), Exec Kill [''/venv/bin/dmypy'', ''kill'']],
        Uncaught UnicodeDecodeError)
   \<and> stdout_of (fst (inner_main kill_garbled_env example_args)) = []
   \<and> snd (inner_main kill_garbled_env example_args) \<noteq> SystemExit 1"
proof -
  have a: "example_args \<noteq> []"
    by (simp add: example_args_def)
  have u: "\<not> is_successful_result \<lparr>type = Dmypy, stdout = [], stderr = traceback, exit_code = 2\<rparr>"
    by (rule crash_result_unsuccessful)
  have w: "wait_first kill_garbled_env example_args = Some {Dmypy}"
    by (simp add: scenario_defs more_scenario_defs)
  have d: "snd (run_dmypy kill_garbled_env example_args) =
       Returned \<lparr>type = Dmypy, stdout = [], stderr = traceback, exit_code = 2\<rparr>"
    by (simp add: scenario_defs more_scenario_defs)
  have m: "snd (run_mypy kill_garbled_env example_args) =
       Returned \<lparr>type = Mypy, stdout = errors_output, stderr = [], exit_code = 1\<rparr>"
    by (simp add: scenario_defs more_scenario_defs)
  have k: "process kill_garbled_env Kill [script_path kill_garbled_env ''dmypy'', ''kill'']
             = Raises UnicodeDecodeError"
    by (simp add: scenario_defs more_scenario_defs)
  have p: "script_path kill_garbled_env ''dmypy'' = ''/venv/bin/dmypy''"
    by (simp add: kill_garbled_env_def venv_def)
  have km: "kill_mypy kill_garbled_env =
       ([Exec Kill [''/venv/bin/dmypy'', ''kill'']], Raised UnicodeDecodeError)"
    using k p by (simp add: kill_mypy_def wait_process_results_def)
  have i: "inner_main kill_garbled_env example_args =
       (launch kill_garbled_env example_args
          @ [Log WARNING (Dmypy_exited 2 traceback []), Exec Kill [''/venv/bin/dmypy'', ''kill'']],
        Uncaught UnicodeDecodeError)"
    using inner_main_Raised [OF a coordinate_daemon_rejected_kill_Raises [OF w _ d u k]] p
    by simp
  show ?thesis
    unfolding i using w m km by (simp add: launch_events stdout_of_append)
qed

text \<open>
  C10, amended. A kill command that exits with a non-zero code or with text on its
  standard error is never fatal and never affects the reported outcome: \<^verbatim>\<open>kill_mypy\<close>
  returns normally, the failure adds one warning to the log, and the coordinator goes on
  to await the one-shot task; what the program then writes and how it ends is what it
  writes and how it ends when the kill command succeeds. A kill run that raises (it
  cannot be launched, or its output cannot be decoded) is fatal: its exception leaves
  \<^verbatim>\<open>inner_main\<close> and the one-shot task is not awaited. A kill run that never returns
  blocks the program.
\<close>

theorem kill_failure_only_logged:
  assumes "args \<noteq> []"
    and "wait_first e args = Some done" and "Dmypy \<in> done"
    and "snd (run_dmypy e args) = Returned rejected" and "\<not> is_successful_result rejected"
  shows "(\<forall>kout kerr kcode.
            process e Kill [script_path e ''dmypy'', ''kill''] = Exits kout kerr kcode
            \<and> (kcode \<noteq> 0 \<or> kerr \<noteq> []) \<longrightarrow>
              kill_mypy e =
                ([Exec Kill [script_path e ''dmypy'', ''kill''],
                  Log WARNING (Failed_to_kill kcode kerr)],
                 Returned ())
              \<and> coordinate e args =
                  (launch e args
                     @ [Log WARNING
                          (Dmypy_exited (exit_code rejected) (stderr rejected) (stdout rejected)),
                        Exec Kill [script_path e ''dmypy'', ''kill''],
                        Log WARNING (Failed_to_kill kcode kerr),
                        Wait_for Mypy None],
                   snd (run_mypy e args))
              \<and> snd (inner_main e args)
                  = snd (inner_main (e\<lparr>process := (process e)(Kill := \<lambda>cmd. Exits [] [] 0)\<rparr>) args)
              \<and> stdout_of (fst (inner_main e args))
                  = stdout_of (fst (inner_main
                                      (e\<lparr>process := (process e)(Kill := \<lambda>cmd. Exits [] [] 0)\<rparr>) args))
              \<and> stderr_of (fst (inner_main e args))
                  = stderr_of (fst (inner_main
                                      (e\<lparr>process := (process e)(Kill := \<lambda>cmd. Exits [] [] 0)\<rparr>) args)))
       \<and> (\<forall>x. process e Kill [script_path e ''dmypy'', ''kill''] = Raises x \<longrightarrow>
              kill_mypy e = ([Exec Kill [script_path e ''dmypy'', ''kill'']], Raised x)
              \<and> inner_main e args =
                  (launch e args
                     @ [Log WARNING
                          (Dmypy_exited (exit_code rejected) (stderr rejected) (stdout rejected)),
                        Exec Kill [script_path e ''dmypy'', ''kill'']],
                   Uncaught x))
       \<and> (process e Kill [script_path e ''dmypy'', ''kill''] = Never \<longrightarrow>
              inner_main e args =
                (launch e args
                   @ [Log WARNING
                        (Dmypy_exited (exit_code rejected) (stderr rejected) (stdout rejected)),
                      Exec Kill [script_path e ''dmypy'', ''kill'']],
                 Blocked))"
proof (intro conjI allI impI)
  fix kout kerr kcode
  assume k: "process e Kill [script_path e ''dmypy'', ''kill''] = Exits kout kerr kcode
             \<and> (kcode \<noteq> 0 \<or> kerr \<noteq> [])"
  then have ex: "process e Kill [script_path e ''dmypy'', ''kill''] = Exits kout kerr kcode"
    and bad: "kcode \<noteq> 0 \<or> kerr \<noteq> []"
    by simp_all
  show "kill_mypy e =
          ([Exec Kill [script_path e ''dmypy'', ''kill''], Log WARNING (Failed_to_kill kcode kerr)],
           Returned ())"
    using kill_mypy_Exits [OF ex] bad by auto
  show c: "coordinate e args =
          (launch e args
             @ [Log WARNING (Dmypy_exited (exit_code rejected) (stderr rejected) (stdout rejected)),
                Exec Kill [script_path e ''dmypy'', ''kill''],
                Log WARNING (Failed_to_kill kcode kerr),
                Wait_for Mypy None],
           snd (run_mypy e args))"
    using coordinate_daemon_rejected [OF assms(2-5) ex] bad by auto
  define e' where "e' = e\<lparr>process := (process e)(Kill := \<lambda>cmd. Exits [] [] 0)\<rparr>"
  have ex': "process e' Kill [script_path e' ''dmypy'', ''kill''] = Exits [] [] 0"
    by (simp add: e'_def)
  have same: "run_mypy e' args = run_mypy e args" "run_dmypy e' args = run_dmypy e args"
    "wait_first e' args = wait_first e args" "launch e' args = launch e args"
    unfolding e'_def by (simp_all only: run_unchanged_by_kill)
  have c': "coordinate e' args =
          (launch e args
             @ [Log WARNING (Dmypy_exited (exit_code rejected) (stderr rejected) (stdout rejected)),
                Exec Kill [script_path e ''dmypy'', ''kill''],
                Log INFO Dmypy_killed,
                Wait_for Mypy None],
           snd (run_mypy e args))"
    using coordinate_daemon_rejected [of e' args "done" rejected "[]" "[]" 0] ex' assms(2-5) same
    by (simp add: e'_def)
  have "snd (inner_main e args) = snd (inner_main e' args)
        \<and> stdout_of (fst (inner_main e args)) = stdout_of (fst (inner_main e' args))
        \<and> stderr_of (fst (inner_main e args)) = stderr_of (fst (inner_main e' args))"
    using assms(1) c c'
    by (cases "snd (run_mypy e args)")
       (simp_all add: inner_main_def launch_events stdout_of_append stderr_of_append)
  then show "snd (inner_main e args)
               = snd (inner_main (e\<lparr>process := (process e)(Kill := \<lambda>cmd. Exits [] [] 0)\<rparr>) args)"
    and "stdout_of (fst (inner_main e args))
           = stdout_of (fst (inner_main
                               (e\<lparr>process := (process e)(Kill := \<lambda>cmd. Exits [] [] 0)\<rparr>) args))"
    and "stderr_of (fst (inner_main e args))
           = stderr_of (fst (inner_main
                               (e\<lparr>process := (process e)(Kill := \<lambda>cmd. Exits [] [] 0)\<rparr>) args))"
    unfolding e'_def by simp_all
next
  fix x
  assume k: "process e Kill [script_path e ''dmypy'', ''kill''] = Raises x"
  show "kill_mypy e = ([Exec Kill [script_path e ''dmypy'', ''kill'']], Raised x)"
    using k by (simp add: kill_mypy_def wait_process_results_def)
  show "inner_main e args =
          (launch e args
             @ [Log WARNING (Dmypy_exited (exit_code rejected) (stderr rejected) (stdout rejected)),
                Exec Kill [script_path e ''dmypy'', ''kill'']],
           Uncaught x)"
    by (rule inner_main_Raised [OF assms(1) coordinate_daemon_rejected_kill_Raises [OF assms(2-5) k]])
next
  assume k: "process e Kill [script_path e ''dmypy'', ''kill''] = Never"
  show "inner_main e args =
          (launch e args
             @ [Log WARNING (Dmypy_exited (exit_code rejected) (stderr rejected) (stdout rejected)),
                Exec Kill [script_path e ''dmypy'', ''kill'']],
           Blocked)"
    by (rule inner_main_Pending [OF assms(1) coordinate_daemon_rejected_kill_Never [OF assms(2-5) k]])
qed

theorem kill_failure_only_logged_witness:
  "example_args \<noteq> []
   \<and> wait_first kill_fails_env example_args = Some {Dmypy}
   \<and> snd (run_dmypy kill_fails_env example_args) =
       Returned \<lparr>type = Dmypy, stdout = [], stderr = traceback, exit_code = 2\<rparr>
   \<and> \<not> is_successful_result \<lparr>type = Dmypy, stdout = [], stderr = traceback, exit_code = 2\<rparr>
   \<and> process kill_fails_env Kill [script_path kill_fails_env ''dmypy'', ''kill'']
       = Exits [] ''Daemon has died'' 2
   \<and> kill_mypy kill_fails_env =
       ([Exec Kill [script_path kill_fails_env ''dmypy'', ''kill''],
         Log WARNING (Failed_to_kill 2 ''Daemon has died'')],
        Returned ())
   \<and> coordinate kill_fails_env example_args =
       (launch kill_fails_env example_args
          @ [Log WARNING (Dmypy_exited 2 traceback []),
             Exec Kill [script_path kill_fails_env ''dmypy'', ''kill''],
             Log WARNING (Failed_to_kill 2 ''Daemon has died''),
             Wait_for Mypy None],
        Returned \<lparr>type = Mypy, stdout = errors_output, stderr = [], exit_code = 1\<rparr>)
   \<and> snd (inner_main kill_fails_env example_args)
       = snd (inner_main
                (kill_fails_env\<lparr>process := (process kill_fails_env)(Kill := \<lambda>cmd. Exits [] [] 0)\<rparr>)
                example_args)"
proof -
  have a: "example_args \<noteq> []"
    by (simp add: example_args_def)
  have w: "wait_first kill_fails_env example_args = Some {Dmypy}"
    by (simp add: scenario_defs)
  have d: "snd (run_dmypy kill_fails_env example_args) =
       Returned \<lparr>type = Dmypy, stdout = [], stderr = traceback, exit_code = 2\<rparr>"
    by (simp add: scenario_defs)
  have u: "\<not> is_successful_result \<lparr>type = Dmypy, stdout = [], stderr = traceback, exit_code = 2\<rparr>"
    by (rule crash_result_unsuccessful)
  have k: "process kill_fails_env Kill [script_path kill_fails_env ''dmypy'', ''kill'']
             = Exits [] ''Daemon has died'' 2"
    by (simp add: scenario_defs)
  have f: "(2::int) \<noteq> 0 \<or> ''Daemon has died'' \<noteq> []"
    by simp
  have m: "snd (run_mypy kill_fails_env example_args) =
       Returned \<lparr>type = Mypy, stdout = errors_output, stderr = [], exit_code = 1\<rparr>"
    by (simp add: scenario_defs)
  have t: "kill_mypy kill_fails_env =
       ([Exec Kill [script_path kill_fails_env ''dmypy'', ''kill''],
         Log WARNING (Failed_to_kill 2 ''Daemon has died'')],
        Returned ())
     \<and> coordinate kill_fails_env example_args =
       (launch kill_fails_env example_args
          @ [Log WARNING (Dmypy_exited 2 traceback []),
             Exec Kill [script_path kill_fails_env ''dmypy'', ''kill''],
             Log WARNING (Failed_to_kill 2 ''Daemon has died''),
             Wait_for Mypy None],
        Returned \<lparr>type = Mypy, stdout = errors_output, stderr = [], exit_code = 1\<rparr>)
     \<and> snd (inner_main kill_fails_env example_args)
       = snd (inner_main
                (kill_fails_env\<lparr>process := (process kill_fails_env)(Kill := \<lambda>cmd. Exits [] [] 0)\<rparr>)
                example_args)"
    using kill_failure_only_logged [OF a w _ d u] k f m by simp
  show ?thesis
    using a w d u k t by blast
qed

subsection \<open>The reporter, and the call without arguments\<close>

lemma exit_status_SystemExit: "exit_status (SystemExit n) = Some (n mod 256)"
  by (simp add: exit_status_def)

text \<open>
  C5, counterexample. The one-shot run is killed by signal 9 and finishes first, so the
  reported outcome has exit code \<open>-9\<close>; the reporter calls \<^verbatim>\<open>sys.exit(-9)\<close> and the exit
  status of the process is 247, not the outcome's exit code.
\<close>

theorem exit_status_differs_from_exit_code:
  "snd (coordinate mypy_killed_env example_args) =
     Returned \<lparr>type = Mypy, stdout = [], stderr = [], exit_code = - 9\<rparr>
   \<and> snd (inner_main mypy_killed_env example_args) = SystemExit (- 9)
   \<and> exit_status (snd (inner_main mypy_killed_env example_args)) = Some 247
   \<and> exit_status (snd (inner_main mypy_killed_env example_args)) \<noteq> Some (- 9)"
proof -
  have a: "example_args \<noteq> []"
    by (simp add: example_args_def)
  have c: "snd (coordinate mypy_killed_env example_args) =
     Returned \<lparr>type = Mypy, stdout = [], stderr = [], exit_code = - 9\<rparr>"
    by (simp add: coordinate_def task_result_def scenario_defs more_scenario_defs)
  have i: "snd (inner_main mypy_killed_env example_args) = SystemExit (- 9)"
    using inner_main_reports(4) [OF a c] by simp
  show ?thesis
    unfolding i using c by (simp add: exit_status_def)
qed

text \<open>
  C5, amended. For every outcome the coordinator hands over, the reporter writes the
  outcome's stdout to standard output as it is, writes the line \<^verbatim>\<open>STDERR:\<close> followed by
  the outcome's stderr to standard error exactly when that stderr is not empty, and
  calls \<^verbatim>\<open>sys.exit\<close> with the outcome's exit code; nothing else is written to the two
  streams. The exit status of the process is that code modulo 256: the code itself when
  it lies between 0 and 255, as the code of every checker that exits on its own does, and
  256 - N for a checker killed by signal N, whose exit code is -N.
\<close>

theorem reporter_writes_outcome:
  assumes "args \<noteq> []" and "snd (coordinate e args) = Returned result"
  shows "inner_main e args =
           (fst (coordinate e args)
              @ [Stdout_write (stdout result)]
              @ (if stderr result \<noteq> []
                 then [Stderr_write (''STDERR:'' @ [NL]), Stderr_write (stderr result)] else []),
            SystemExit (exit_code result))
       \<and> stdout_of (fst (inner_main e args)) = stdout result
       \<and> stderr_of (fst (inner_main e args))
           = (if stderr result \<noteq> [] then ''STDERR:'' @ [NL] @ stderr result else [])
       \<and> exit_status (snd (inner_main e args)) = Some (exit_code result mod 256)
       \<and> (0 \<le> exit_code result \<and> exit_code result < 256 \<longrightarrow>
            exit_status (snd (inner_main e args)) = Some (exit_code result))
       \<and> (\<forall>n. 0 < n \<and> n < 256 \<and> exit_code result = - n \<longrightarrow>
            exit_status (snd (inner_main e args)) = Some (256 - n))"
proof -
  have i: "snd (inner_main e args) = SystemExit (exit_code result)"
    by (rule inner_main_reports(4) [OF assms])
  have s: "exit_status (snd (inner_main e args)) = Some (exit_code result mod 256)"
    unfolding i by (rule exit_status_SystemExit)
  have neg: "(- n) mod 256 = 256 - n" if "0 < n" and "n < 256" for n :: int
    using that by (simp add: zmod_zminus1_eq_if)
  show ?thesis
    using inner_main_reports [OF assms] s neg by (auto simp: report_def)
qed

theorem reporter_writes_outcome_witness:
  "example_args \<noteq> []
   \<and> snd (coordinate mypy_fails_env example_args) =
       Returned \<lparr>type = Mypy, stdout = [], stderr = ''mypy: cannot read file'', exit_code = 2\<rparr>
   \<and> inner_main mypy_fails_env example_args =
       (fst (coordinate mypy_fails_env example_args)
          @ [Stdout_write [], Stderr_write (''STDERR:'' @ [NL]),
             Stderr_write ''mypy: cannot read file''],
        SystemExit 2)
   \<and> stdout_of (fst (inner_main mypy_fails_env example_args)) = []
   \<and> stderr_of (fst (inner_main mypy_fails_env example_args))
       = ''STDERR:'' @ [NL] @ ''mypy: cannot read file''
   \<and> exit_status (snd (inner_main mypy_fails_env example_args)) = Some 2
   \<and> snd (coordinate mypy_killed_env example_args) =
       Returned \<lparr>type = Mypy, stdout = [], stderr = [], exit_code = - 9\<rparr>
   \<and> stdout_of (fst (inner_main mypy_killed_env example_args)) = []
   \<and> stderr_of (fst (inner_main mypy_killed_env example_args)) = []
   \<and> exit_status (snd (inner_main mypy_killed_env example_args)) = Some 247"
proof -
  have a: "example_args \<noteq> []"
    by (simp add: example_args_def)
  have c: "snd (coordinate mypy_fails_env example_args) =
     Returned \<lparr>type = Mypy, stdout = [], stderr = ''mypy: cannot read file'', exit_code = 2\<rparr>"
    by (simp add: coordinate_def task_result_def scenario_defs)
  have t: "inner_main mypy_fails_env example_args =
       (fst (coordinate mypy_fails_env example_args)
          @ [Stdout_write [], Stderr_write (''STDERR:'' @ [NL]),
             Stderr_write ''mypy: cannot read file''],
        SystemExit 2)
     \<and> stdout_of (fst (inner_main mypy_fails_env example_args)) = []
     \<and> stderr_of (fst (inner_main mypy_fails_env example_args))
       = ''STDERR:'' @ [NL] @ ''mypy: cannot read file''
     \<and> exit_status (snd (inner_main mypy_fails_env example_args)) = Some 2"
    using reporter_writes_outcome [OF a c] coordinate_silent [of mypy_fails_env example_args]
    by (simp add: stdout_of_append stderr_of_append exit_status_def)
  have c': "snd (coordinate mypy_killed_env example_args) =
     Returned \<lparr>type = Mypy, stdout = [], stderr = [], exit_code = - 9\<rparr>"
    by (simp add: coordinate_def task_result_def scenario_defs more_scenario_defs)
  have t': "stdout_of (fst (inner_main mypy_killed_env example_args)) = []
     \<and> stderr_of (fst (inner_main mypy_killed_env example_args)) = []
     \<and> exit_status (snd (inner_main mypy_killed_env example_args)) = Some 247"
    using reporter_writes_outcome [OF a c'] coordinate_silent [of mypy_killed_env example_args]
    by (simp add: stdout_of_append stderr_of_append exit_status_def)
  show ?thesis
    using a c t c' t' by blast
qed

text \<open>
  C6. Called with no arguments, the program prints \<^verbatim>\<open>No args!\<close>, exits with code 1,
  and neither creates a task nor launches a command.
\<close>

theorem no_arguments:
  "inner_main e [] = ([Stdout_write (''No args!'' @ [NL])], SystemExit 1)
   \<and> (\<forall>t cmd. Exec t cmd \<notin> set (fst (inner_main e [])))
   \<and> (\<forall>t. Create_task t \<notin> set (fst (inner_main e [])))"
  by (simp add: inner_main_def)

theorem no_arguments_witness:
  "inner_main daemon_wins_env [] = ([Stdout_write (''No args!'' @ [NL])], SystemExit 1)
   \<and> (\<forall>t cmd. Exec t cmd \<notin> set (fst (inner_main daemon_wins_env [])))
   \<and> stdout_of (fst (inner_main daemon_wins_env [])) = ''No args!'' @ [NL]"
  using no_arguments [of daemon_wins_env] by simp

subsection \<open>The one-shot task finishes first, and which result is reported\<close>

lemma grace_wait_Returned: "grace_wait e args = Returned d \<Longrightarrow> snd (run_dmypy e args) = Returned d"
  by (auto simp: grace_wait_def wait_for_def split: awaited.splits if_splits)

lemma coordinate_Returned_cases:
  assumes "snd (coordinate e args) = Returned result"
  shows "(snd (run_dmypy e args) = Returned result \<and> is_successful_result result
            \<and> Cancel Mypy \<in> set (fst (coordinate e args)))
       \<or> (snd (run_mypy e args) = Returned result
            \<and> (\<exists>d. snd (run_dmypy e args) = Returned d \<and> \<not> is_successful_result d))
       \<or> (snd (run_mypy e args) = Returned result \<and> (\<exists>d. grace_wait e args = Returned d))
       \<or> (snd (run_mypy e args) = Returned result \<and> grace_wait e args = Raised TimeoutError
            \<and> Cancel Dmypy \<in> set (fst (coordinate e args)))"
proof (cases "wait_first e args")
  case None
  then show ?thesis using assms by (simp add: coordinate_def)
next
  case (Some ts)
  show ?thesis
  proof (cases "Dmypy \<in> ts")
    case True
    show ?thesis
    proof (cases "snd (run_dmypy e args)")
      case (Returned d)
      show ?thesis
      proof (cases "is_successful_result d")
        case True
        with Returned Some \<open>Dmypy \<in> ts\<close> assms show ?thesis
          by (simp add: coordinate_def task_result_def)
      next
        case False
        note rejected = Returned False
        show ?thesis
        proof (cases "snd (kill_mypy e)")
          case (Returned u)
          have "snd (coordinate e args) = snd (run_mypy e args)"
            using rejected Returned Some \<open>Dmypy \<in> ts\<close>
            by (simp add: coordinate_def task_result_def wait_for_def Let_def)
          then have "snd (run_mypy e args) = Returned result"
            using assms by simp
          then show ?thesis
            using rejected by blast
        next
          case (Raised x)
          then show ?thesis
            using rejected Some \<open>Dmypy \<in> ts\<close> assms
            by (simp add: coordinate_def task_result_def Let_def)
        next
          case Pending
          then show ?thesis
            using rejected Some \<open>Dmypy \<in> ts\<close> assms
            by (simp add: coordinate_def task_result_def Let_def)
        qed
      qed
    next
      case (Raised x)
      with Some True assms show ?thesis by (simp add: coordinate_def task_result_def)
    next
      case Pending
      with Some True assms show ?thesis by (simp add: coordinate_def task_result_def)
    qed
  next
    case False
    show ?thesis
    proof (cases "Mypy \<in> ts")
      case True
      show ?thesis
      proof (cases "snd (run_mypy e args)")
        case (Returned m)
        note first = Returned Some \<open>Dmypy \<notin> ts\<close> True
        show ?thesis
        proof (cases "grace_wait e args")
          case (Returned d)
          then have "snd (coordinate e args) = Returned m"
            using first by (simp add: coordinate_def task_result_def Let_def)
          then show ?thesis
            using assms first(1) Returned by auto
        next
          case (Raised x)
          show ?thesis
          proof (cases "x = TimeoutError")
            case True
            then have "coordinate e args =
                (launch e args @ [Log DEBUG Mypy_finished_first, Wait_for Dmypy (Some 1),
                                  Log DEBUG Timeout_waiting, Cancel Dmypy], Returned m)"
              using first Raised by (simp add: coordinate_def task_result_def Let_def)
            then show ?thesis
              using assms first(1) Raised True by auto
          next
            case False
            then show ?thesis
              using first Raised assms by (simp add: coordinate_def task_result_def Let_def)
          qed
        next
          case Pending
          then show ?thesis
            using first assms by (simp add: coordinate_def task_result_def Let_def)
        qed
      next
        case (Raised x)
        with Some \<open>Dmypy \<notin> ts\<close> True assms show ?thesis
          by (simp add: coordinate_def task_result_def)
      next
        case Pending
        with Some \<open>Dmypy \<notin> ts\<close> True assms show ?thesis
          by (simp add: coordinate_def task_result_def)
      qed
    next
      case False
      with Some \<open>Dmypy \<notin> ts\<close> assms show ?thesis by (simp add: coordinate_def)
    qed
  qed
qed

lemma grace_wait_not_Pending: "grace_wait e args \<noteq> Pending"
  by (simp add: grace_wait_def wait_for_def split: awaited.splits)

lemma wait_first_nonempty: "wait_first e args = Some ts \<Longrightarrow> Dmypy \<in> ts \<or> Mypy \<in> ts"
  by (auto simp: wait_first_def split: awaited.splits race.splits)

text \<open>
  C2, counterexample. The one-shot task finishes first with a clean result; within the
  grace period the daemon task ends with \<open>UnicodeDecodeError\<close>. \<^verbatim>\<open>wait_for\<close> raises it
  again, the handler catches \<open>TimeoutError\<close> only, and the exception leaves
  \<^verbatim>\<open>inner_main\<close>: nothing is written to standard output and the process does not exit
  with the one-shot result's code. So a failure of the daemon task in that window is
  not discarded.
\<close>

theorem daemon_failure_in_grace_period_propagates:
  "wait_first daemon_garbled_env example_args = Some {Mypy}
   \<and> snd (run_mypy daemon_garbled_env example_args) =
       Returned \<lparr>type = Mypy, stdout = clean_output, stderr = [], exit_code = 0\<rparr>
   \<and> grace_wait daemon_garbled_env example_args = Raised UnicodeDecodeError
   \<and> inner_main daemon_garbled_env example_args =
       (launch daemon_garbled_env example_args
          @ [Log DEBUG Mypy_finished_first, Wait_for Dmypy (Some 1)],
        Uncaught UnicodeDecodeError)
   \<and> stdout_of (fst (inner_main daemon_garbled_env example_args)) = []
   \<and> snd (inner_main daemon_garbled_env example_args) \<noteq> SystemExit 0"
proof -
  have w: "wait_first daemon_garbled_env example_args = Some {Mypy}"
    by (simp add: scenario_defs)
  have m: "snd (run_mypy daemon_garbled_env example_args) =
       Returned \<lparr>type = Mypy, stdout = clean_output, stderr = [], exit_code = 0\<rparr>"
    by (simp add: scenario_defs)
  have g: "grace_wait daemon_garbled_env example_args = Raised UnicodeDecodeError"
    by (simp add: scenario_defs)
  have c: "coordinate daemon_garbled_env example_args =
       (launch daemon_garbled_env example_args
          @ [Log DEBUG Mypy_finished_first, Wait_for Dmypy (Some 1)],
        Raised UnicodeDecodeError)"
    using coordinate_sync_first [OF w _ _ m] g by simp
  have a: "example_args \<noteq> []"
    by (simp add: example_args_def)
  have i: "inner_main daemon_garbled_env example_args =
       (launch daemon_garbled_env example_args
          @ [Log DEBUG Mypy_finished_first, Wait_for Dmypy (Some 1)],
        Uncaught UnicodeDecodeError)"
    by (rule inner_main_Raised [OF a c])
  have s: "stdout_of (fst (inner_main daemon_garbled_env example_args)) = []"
    unfolding i by (simp add: launch_events stdout_of_append)
  show ?thesis
    using w m g i s by simp
qed

text \<open>
  C2, amended. If the one-shot task alone has finished first, with a result, then
  whatever result the daemon task returns within the grace period, and also when the
  wait times out, the reported outcome is the one-shot result: stdout, stderr and the
  exit code are its own. The daemon task is awaited once, with a timeout of 1, and on
  timeout it is cancelled.
\<close>

theorem one_shot_first_reported:
  assumes "args \<noteq> []"
    and "wait_first e args = Some done" and "Dmypy \<notin> done" and "Mypy \<in> done"
    and "snd (run_mypy e args) = Returned result"
    and "grace_wait e args = Returned late \<or> grace_wait e args = Raised TimeoutError"
  shows "coordinate e args =
           (launch e args @ [Log DEBUG Mypy_finished_first, Wait_for Dmypy (Some 1)]
              @ (if grace_wait e args = Raised TimeoutError
                 then [Log DEBUG Timeout_waiting, Cancel Dmypy] else []),
            Returned result)
       \<and> fst (inner_main e args) = fst (coordinate e args) @ fst (report result)
       \<and> stdout_of (fst (inner_main e args)) = stdout result
       \<and> stderr_of (fst (inner_main e args))
           = (if stderr result = [] then [] else ''STDERR:'' @ [NL] @ stderr result)
       \<and> snd (inner_main e args) = SystemExit (exit_code result)"
proof -
  have c: "coordinate e args =
           (launch e args @ [Log DEBUG Mypy_finished_first, Wait_for Dmypy (Some 1)]
              @ (if grace_wait e args = Raised TimeoutError
                 then [Log DEBUG Timeout_waiting, Cancel Dmypy] else []),
            Returned result)"
    using coordinate_sync_first [OF assms(2-5)] assms(6) by auto
  have r: "snd (coordinate e args) = Returned result"
    using c by simp
  have "fst (inner_main e args) = fst (coordinate e args) @ fst (report result)"
    using inner_main_reports(1) [OF assms(1) r] by simp
  then show ?thesis
    using c inner_main_reports(2-4) [OF assms(1) r] by blast
qed

theorem one_shot_first_reported_witness:
  "wait_first daemon_hangs_env example_args = Some {Mypy}
   \<and> grace_wait daemon_hangs_env example_args = Raised TimeoutError
   \<and> coordinate daemon_hangs_env example_args =
       (launch daemon_hangs_env example_args
          @ [Log DEBUG Mypy_finished_first, Wait_for Dmypy (Some 1),
             Log DEBUG Timeout_waiting, Cancel Dmypy],
        Returned \<lparr>type = Mypy, stdout = clean_output, stderr = [], exit_code = 0\<rparr>)
   \<and> stdout_of (fst (inner_main daemon_hangs_env example_args)) = clean_output
   \<and> stderr_of (fst (inner_main daemon_hangs_env example_args)) = []
   \<and> snd (inner_main daemon_hangs_env example_args) = SystemExit 0
   \<and> grace_wait mypy_fails_env example_args =
       Returned \<lparr>type = Dmypy, stdout = clean_output, stderr = [], exit_code = 0\<rparr>
   \<and> snd (coordinate mypy_fails_env example_args) =
       Returned \<lparr>type = Mypy, stdout = [], stderr = ''mypy: cannot read file'', exit_code = 2\<rparr>
   \<and> snd (inner_main mypy_fails_env example_args) = SystemExit 2"
proof -
  have a: "example_args \<noteq> []"
    by (simp add: example_args_def)
  have w: "wait_first daemon_hangs_env example_args = Some {Mypy}"
    by (simp add: scenario_defs)
  have m: "snd (run_mypy daemon_hangs_env example_args) =
       Returned \<lparr>type = Mypy, stdout = clean_output, stderr = [], exit_code = 0\<rparr>"
    by (simp add: scenario_defs)
  have g: "grace_wait daemon_hangs_env example_args = Raised TimeoutError"
    by (simp add: scenario_defs)
  have g': "grace_wait daemon_hangs_env example_args = Returned \<lparr>type = Dmypy, stdout = [], stderr = [], exit_code = 0\<rparr>
            \<or> grace_wait daemon_hangs_env example_args = Raised TimeoutError"
    using g by simp
  have w2: "wait_first mypy_fails_env example_args = Some {Mypy}"
    by (simp add: scenario_defs)
  have m2: "snd (run_mypy mypy_fails_env example_args) =
       Returned \<lparr>type = Mypy, stdout = [], stderr = ''mypy: cannot read file'', exit_code = 2\<rparr>"
    by (simp add: scenario_defs)
  have g2: "grace_wait mypy_fails_env example_args =
       Returned \<lparr>type = Dmypy, stdout = clean_output, stderr = [], exit_code = 0\<rparr>"
    by (simp add: scenario_defs)
  have g2': "grace_wait mypy_fails_env example_args =
       Returned \<lparr>type = Dmypy, stdout = clean_output, stderr = [], exit_code = 0\<rparr>
       \<or> grace_wait mypy_fails_env example_args = Raised TimeoutError"
    using g2 by simp
  show ?thesis
    using w g g2 one_shot_first_reported [OF a w _ _ m g']
      one_shot_first_reported [OF a w2 _ _ m2 g2']
    by (simp add: report_def launch_events stdout_of_append stderr_of_append)
qed

text \<open>
  C7, counterexample. An invocation with one argument in which the daemon client cannot
  be launched: the daemon task finishes first, \<^verbatim>\<open>daemon_task.result()\<close> raises its
  \<open>FileNotFoundError\<close> again, and \<^verbatim>\<open>inner_main\<close> ends with that exception. No result is
  treated as authoritative and none is reported.
\<close>

theorem launch_failure_reports_nothing:
  "example_args \<noteq> []
   \<and> coordinate daemon_missing_env example_args =
       (launch daemon_missing_env example_args, Raised FileNotFoundError)
   \<and> inner_main daemon_missing_env example_args =
       (launch daemon_missing_env example_args, Uncaught FileNotFoundError)
   \<and> stdout_of (fst (inner_main daemon_missing_env example_args)) = []
   \<and> stderr_of (fst (inner_main daemon_missing_env example_args)) = []"
proof -
  have a: "example_args \<noteq> []"
    by (simp add: example_args_def)
  have c: "coordinate daemon_missing_env example_args =
       (launch daemon_missing_env example_args, Raised FileNotFoundError)"
    by (simp add: coordinate_def task_result_def scenario_defs)
  have i: "inner_main daemon_missing_env example_args =
       (launch daemon_missing_env example_args, Uncaught FileNotFoundError)"
    by (rule inner_main_Raised [OF a c])
  show ?thesis
    using a c i by (simp add: launch_events)
qed

lemma snd_run_mypy_Exits:
  "process e Mypy (script_path e ''mypy'' # args) = Exits out err code \<Longrightarrow>
   snd (run_mypy e args) = Returned \<lparr>type = Mypy, stdout = out, stderr = err, exit_code = code\<rparr>"
  by (simp add: run_mypy_def wait_process_results_def)

lemma snd_run_dmypy_Exits:
  "process e Dmypy ([script_path e ''dmypy'', ''run'', ''--''] @ args) = Exits out err code \<Longrightarrow>
   snd (run_dmypy e args) = Returned \<lparr>type = Dmypy, stdout = out, stderr = err, exit_code = code\<rparr>"
  by (simp add: run_dmypy_def wait_process_results_def)

lemma run_mypy_Returned_process:
  "snd (run_mypy e args) = Returned r \<Longrightarrow>
   process e Mypy (script_path e ''mypy'' # args) = Exits (stdout r) (stderr r) (exit_code r)"
  by (auto simp: run_mypy_def wait_process_results_def split: completion.splits)

lemma run_dmypy_Returned_process:
  "snd (run_dmypy e args) = Returned r \<Longrightarrow>
   process e Dmypy ([script_path e ''dmypy'', ''run'', ''--''] @ args)
     = Exits (stdout r) (stderr r) (exit_code r)"
  by (auto simp: run_dmypy_def wait_process_results_def split: completion.splits)

lemma coordinate_all_exit:
  assumes m: "snd (run_mypy e args) = Returned M"
    and d: "snd (run_dmypy e args) = Returned D"
    and k: "process e Kill [script_path e ''dmypy'', ''kill''] = Exits kout kerr kcode"
  shows "snd (coordinate e args)
           = Returned (if first_completed e \<noteq> SyncFirst \<and> is_successful_result D then D else M)"
proof (cases "first_completed e = SyncFirst")
  case True
  then have w: "wait_first e args = Some {Mypy}"
    using m d by (simp add: wait_first_def)
  have "grace_wait e args = Returned D \<or> grace_wait e args = Raised TimeoutError"
    using d by (simp add: grace_wait_def wait_for_def)
  then have "snd (coordinate e args) = Returned M"
    using coordinate_sync_first [OF w _ _ m] by auto
  then show ?thesis using True by simp
next
  case False
  then obtain ts where w: "wait_first e args = Some ts" and i: "Dmypy \<in> ts"
    using m d by (cases "first_completed e") (simp_all add: wait_first_def)
  show ?thesis
  proof (cases "is_successful_result D")
    case True
    then show ?thesis
      using coordinate_daemon_accepted [OF w i d True] False by simp
  next
    case rejected: False
    then show ?thesis
      using coordinate_daemon_rejected [OF w i d rejected k] m False by simp
  qed
qed

text \<open>
  A task that raises does not always end the program: when both tasks are done as the
  coordinator wakes up and the daemon's result is trustworthy, the one-shot task is
  cancelled without a look at it, and the daemon's result is reported.
\<close>

lemma raised_task_can_go_unnoticed:
  "snd (run_mypy mypy_garbled_env example_args) = Raised UnicodeDecodeError
   \<and> wait_first mypy_garbled_env example_args = Some {Dmypy, Mypy}
   \<and> snd (coordinate mypy_garbled_env example_args) =
       Returned \<lparr>type = Dmypy, stdout = clean_output, stderr = [], exit_code = 0\<rparr>"
  using clean_result_successful [of Dmypy]
  by (simp add: coordinate_def task_result_def scenario_defs more_scenario_defs)

text \<open>
  C7, amended. In every invocation with at least one argument in which the three
  commands are launched, exit and are decoded, exactly one result is reported: the
  daemon's when the daemon task is among the tasks that finished first and its result is
  trustworthy, and the one-shot task's otherwise. In every invocation that reaches the
  reporter, whatever the commands do, the reported result is the result of exactly one of
  the two racing tasks, the one named by its \<open>type\<close> field, field by field what that
  command produced, and never the other's: either the daemon's, and then the one-shot
  task has been cancelled, or the one-shot task's, and then the daemon task has been
  cancelled after the timeout or has completed, its result only classified and logged,
  or dropped. The streams and the exit code are those of the reported result alone.
\<close>

theorem one_result_authoritative:
  assumes "args \<noteq> []"
  shows "(\<forall>mout merr mcode dout derr dcode kout kerr kcode.
            process e Mypy (script_path e ''mypy'' # args) = Exits mout merr mcode
            \<and> process e Dmypy ([script_path e ''dmypy'', ''run'', ''--''] @ args)
                = Exits dout derr dcode
            \<and> process e Kill [script_path e ''dmypy'', ''kill''] = Exits kout kerr kcode \<longrightarrow>
              snd (coordinate e args) =
                Returned
                  (if first_completed e \<noteq> SyncFirst
                      \<and> is_successful_result
                          \<lparr>type = Dmypy, stdout = dout, stderr = derr, exit_code = dcode\<rparr>
                   then \<lparr>type = Dmypy, stdout = dout, stderr = derr, exit_code = dcode\<rparr>
                   else \<lparr>type = Mypy, stdout = mout, stderr = merr, exit_code = mcode\<rparr>))
       \<and> (\<forall>result. snd (coordinate e args) = Returned result \<longrightarrow>
              ((type result = Dmypy \<and> snd (run_dmypy e args) = Returned result
                  \<and> process e Dmypy ([script_path e ''dmypy'', ''run'', ''--''] @ args)
                      = Exits (stdout result) (stderr result) (exit_code result)
                  \<and> is_successful_result result
                  \<and> snd (run_mypy e args) \<noteq> Returned result
                  \<and> Cancel Mypy \<in> set (fst (coordinate e args)))
               \<or> (type result = Mypy \<and> snd (run_mypy e args) = Returned result
                  \<and> process e Mypy (script_path e ''mypy'' # args)
                      = Exits (stdout result) (stderr result) (exit_code result)
                  \<and> snd (run_dmypy e args) \<noteq> Returned result
                  \<and> ((grace_wait e args = Raised TimeoutError
                        \<and> Cancel Dmypy \<in> set (fst (coordinate e args)))
                      \<or> (\<exists>d. snd (run_dmypy e args) = Returned d
                               \<and> (\<not> is_successful_result d \<or> grace_wait e args = Returned d)))))
              \<and> stdout_of (fst (inner_main e args)) = stdout result
              \<and> stderr_of (fst (inner_main e args))
                  = (if stderr result = [] then [] else ''STDERR:'' @ [NL] @ stderr result)
              \<and> snd (inner_main e args) = SystemExit (exit_code result))"
proof (intro conjI allI impI)
  fix mout merr mcode dout derr dcode kout kerr kcode
  assume "process e Mypy (script_path e ''mypy'' # args) = Exits mout merr mcode
            \<and> process e Dmypy ([script_path e ''dmypy'', ''run'', ''--''] @ args)
                = Exits dout derr dcode
            \<and> process e Kill [script_path e ''dmypy'', ''kill''] = Exits kout kerr kcode"
  then have m: "snd (run_mypy e args)
        = Returned \<lparr>type = Mypy, stdout = mout, stderr = merr, exit_code = mcode\<rparr>"
    and d: "snd (run_dmypy e args)
        = Returned \<lparr>type = Dmypy, stdout = dout, stderr = derr, exit_code = dcode\<rparr>"
    and k: "process e Kill [script_path e ''dmypy'', ''kill''] = Exits kout kerr kcode"
    by (simp_all add: snd_run_mypy_Exits snd_run_dmypy_Exits)
  show "snd (coordinate e args) =
          Returned
            (if first_completed e \<noteq> SyncFirst
                \<and> is_successful_result
                    \<lparr>type = Dmypy, stdout = dout, stderr = derr, exit_code = dcode\<rparr>
             then \<lparr>type = Dmypy, stdout = dout, stderr = derr, exit_code = dcode\<rparr>
             else \<lparr>type = Mypy, stdout = mout, stderr = merr, exit_code = mcode\<rparr>)"
    by (rule coordinate_all_exit [OF m d k])
next
  fix result
  assume r: "snd (coordinate e args) = Returned result"
  show "(type result = Dmypy \<and> snd (run_dmypy e args) = Returned result
            \<and> process e Dmypy ([script_path e ''dmypy'', ''run'', ''--''] @ args)
                = Exits (stdout result) (stderr result) (exit_code result)
            \<and> is_successful_result result
            \<and> snd (run_mypy e args) \<noteq> Returned result
            \<and> Cancel Mypy \<in> set (fst (coordinate e args)))
         \<or> (type result = Mypy \<and> snd (run_mypy e args) = Returned result
            \<and> process e Mypy (script_path e ''mypy'' # args)
                = Exits (stdout result) (stderr result) (exit_code result)
            \<and> snd (run_dmypy e args) \<noteq> Returned result
            \<and> ((grace_wait e args = Raised TimeoutError
                  \<and> Cancel Dmypy \<in> set (fst (coordinate e args)))
                \<or> (\<exists>d. snd (run_dmypy e args) = Returned d
                         \<and> (\<not> is_successful_result d \<or> grace_wait e args = Returned d))))"
    using coordinate_Returned_cases [OF r]
  proof (elim disjE conjE exE)
    assume d: "snd (run_dmypy e args) = Returned result"
      and s: "is_successful_result result"
      and c: "Cancel Mypy \<in> set (fst (coordinate e args))"
    have t: "type result = Dmypy"
      by (rule type_run_dmypy [OF d])
    have "snd (run_mypy e args) \<noteq> Returned result"
      using type_run_mypy [of e args result] t by auto
    then show ?thesis
      using d s c t run_dmypy_Returned_process [OF d] by blast
  next
    fix d
    assume m: "snd (run_mypy e args) = Returned result"
      and d: "snd (run_dmypy e args) = Returned d" and u: "\<not> is_successful_result d"
    have t: "type result = Mypy"
      by (rule type_run_mypy [OF m])
    have "snd (run_dmypy e args) \<noteq> Returned result"
      using type_run_dmypy [of e args result] t by auto
    then show ?thesis
      using m d u t run_mypy_Returned_process [OF m] by blast
  next
    fix d
    assume m: "snd (run_mypy e args) = Returned result"
      and g: "grace_wait e args = Returned d"
    have t: "type result = Mypy"
      by (rule type_run_mypy [OF m])
    have "snd (run_dmypy e args) \<noteq> Returned result"
      using type_run_dmypy [of e args result] t by auto
    then show ?thesis
      using m g grace_wait_Returned [OF g] t run_mypy_Returned_process [OF m] by blast
  next
    assume m: "snd (run_mypy e args) = Returned result"
      and g: "grace_wait e args = Raised TimeoutError"
      and c: "Cancel Dmypy \<in> set (fst (coordinate e args))"
    have t: "type result = Mypy"
      by (rule type_run_mypy [OF m])
    have "snd (run_dmypy e args) \<noteq> Returned result"
      using type_run_dmypy [of e args result] t by auto
    then show ?thesis
      using m g c t run_mypy_Returned_process [OF m] by blast
  qed
  show "stdout_of (fst (inner_main e args)) = stdout result"
    by (rule inner_main_reports(2) [OF assms r])
  show "stderr_of (fst (inner_main e args))
          = (if stderr result = [] then [] else ''STDERR:'' @ [NL] @ stderr result)"
    by (rule inner_main_reports(3) [OF assms r])
  show "snd (inner_main e args) = SystemExit (exit_code result)"
    by (rule inner_main_reports(4) [OF assms r])
qed

theorem one_result_authoritative_witness:
  "example_args \<noteq> []
   \<and> snd (run_mypy daemon_stale_env example_args) =
       Returned \<lparr>type = Mypy, stdout = errors_output, stderr = [], exit_code = 1\<rparr>
   \<and> snd (coordinate daemon_stale_env example_args) =
       Returned \<lparr>type = Dmypy, stdout = clean_output, stderr = [], exit_code = 0\<rparr>
   \<and> Cancel Mypy \<in> set (fst (coordinate daemon_stale_env example_args))
   \<and> stdout_of (fst (inner_main daemon_stale_env example_args)) = clean_output
   \<and> stderr_of (fst (inner_main daemon_stale_env example_args)) = []
   \<and> snd (inner_main daemon_stale_env example_args) = SystemExit 0
   \<and> snd (run_dmypy daemon_crash_env example_args) =
       Returned \<lparr>type = Dmypy, stdout = [], stderr = traceback, exit_code = 2\<rparr>
   \<and> snd (coordinate daemon_crash_env example_args) =
       Returned \<lparr>type = Mypy, stdout = errors_output, stderr = [], exit_code = 1\<rparr>
   \<and> stdout_of (fst (inner_main daemon_crash_env example_args)) = errors_output
   \<and> stderr_of (fst (inner_main daemon_crash_env example_args)) = []
   \<and> snd (inner_main daemon_crash_env example_args) = SystemExit 1"
proof -
  have a: "example_args \<noteq> []"
    by (simp add: example_args_def)
  note th = one_result_authoritative [OF a, of daemon_stale_env]
  have m: "snd (run_mypy daemon_stale_env example_args) =
       Returned \<lparr>type = Mypy, stdout = errors_output, stderr = [], exit_code = 1\<rparr>"
    by (simp add: scenario_defs more_scenario_defs)
  have p: "process daemon_stale_env Mypy (script_path daemon_stale_env ''mypy'' # example_args)
             = Exits errors_output [] 1
           \<and> process daemon_stale_env Dmypy
               ([script_path daemon_stale_env ''dmypy'', ''run'', ''--''] @ example_args)
             = Exits clean_output [] 0
           \<and> process daemon_stale_env Kill [script_path daemon_stale_env ''dmypy'', ''kill'']
             = Exits [] [] 0"
    by (simp add: daemon_stale_env_def programs_def)
  have c: "snd (coordinate daemon_stale_env example_args) =
       Returned \<lparr>type = Dmypy, stdout = clean_output, stderr = [], exit_code = 0\<rparr>"
    using th [THEN conjunct1, rule_format, OF p] clean_result_successful [of Dmypy]
    by (simp add: daemon_stale_env_def)
  have r: "Cancel Mypy \<in> set (fst (coordinate daemon_stale_env example_args))
     \<and> stdout_of (fst (inner_main daemon_stale_env example_args)) = clean_output
     \<and> stderr_of (fst (inner_main daemon_stale_env example_args)) = []
     \<and> snd (inner_main daemon_stale_env example_args) = SystemExit 0"
    using th [THEN conjunct2, rule_format, OF c] by simp
  note th' = one_result_authoritative [OF a, of daemon_crash_env]
  have d': "snd (run_dmypy daemon_crash_env example_args) =
       Returned \<lparr>type = Dmypy, stdout = [], stderr = traceback, exit_code = 2\<rparr>"
    by (simp add: scenario_defs)
  have p': "process daemon_crash_env Mypy (script_path daemon_crash_env ''mypy'' # example_args)
             = Exits errors_output [] 1
           \<and> process daemon_crash_env Dmypy
               ([script_path daemon_crash_env ''dmypy'', ''run'', ''--''] @ example_args)
             = Exits [] traceback 2
           \<and> process daemon_crash_env Kill [script_path daemon_crash_env ''dmypy'', ''kill'']
             = Exits [] [] 0"
    by (simp add: daemon_crash_env_def programs_def)
  have c': "snd (coordinate daemon_crash_env example_args) =
       Returned \<lparr>type = Mypy, stdout = errors_output, stderr = [], exit_code = 1\<rparr>"
    using th' [THEN conjunct1, rule_format, OF p'] crash_result_unsuccessful [of Dmypy]
    by simp
  have r': "stdout_of (fst (inner_main daemon_crash_env example_args)) = errors_output
     \<and> stderr_of (fst (inner_main daemon_crash_env example_args)) = []
     \<and> snd (inner_main daemon_crash_env example_args) = SystemExit 1"
    using th' [THEN conjunct2, rule_format, OF c'] by simp
  show ?thesis
    using a m c r d' c' r' by blast
qed

subsection \<open>Cancelled tasks and their children\<close>

lemma foldl_step_report: "foldl (step e args) w (fst (report result)) = w"
  by (simp add: report_def step_def)

lemma foldl_step_launch: "foldl (step e args) w (launch e args) = w"
  by (simp add: launch_events step_def)

lemma tasks_at_exit_daemon_accepted:
  assumes "args \<noteq> []"
    and "wait_first e args = Some done" and "Dmypy \<in> done"
    and "snd (run_dmypy e args) = Returned result" and "is_successful_result result"
  shows "tasks_at_exit e args =
           \<lparr>daemon_task = seen e args Dmypy, sync_task = cancel (seen e args Mypy)\<rparr>"
proof -
  have "fst (inner_main e args) =
          launch e args @ [Log DEBUG (Dmypy_finished (exit_code result)), Cancel Mypy]
            @ fst (report result)"
    using inner_main_Returned [OF assms(1) coordinate_daemon_accepted [OF assms(2-5)]] by simp
  then show ?thesis
    by (simp add: tasks_at_exit_def foldl_step_launch foldl_step_report after_first_wait_def
          step_def on_task_def)
qed

lemma tasks_at_exit_timeout:
  assumes "args \<noteq> []"
    and "wait_first e args = Some done" and "Dmypy \<notin> done" and "Mypy \<in> done"
    and "snd (run_mypy e args) = Returned result"
    and "snd (run_dmypy e args) = Pending \<or> \<not> within_grace e"
  shows "tasks_at_exit e args =
           \<lparr>daemon_task = cancel (cancel (seen e args Dmypy)), sync_task = seen e args Mypy\<rparr>"
proof -
  have g: "grace_wait e args = Raised TimeoutError"
    using assms(6) by (auto simp: grace_wait_def wait_for_def split: awaited.splits)
  have "coordinate e args =
          (launch e args @ [Log DEBUG Mypy_finished_first, Wait_for Dmypy (Some 1),
                            Log DEBUG Timeout_waiting, Cancel Dmypy],
           Returned result)"
    using coordinate_sync_first [OF assms(2-5)] g by simp
  then have "fst (inner_main e args) =
          launch e args @ [Log DEBUG Mypy_finished_first, Wait_for Dmypy (Some 1),
                           Log DEBUG Timeout_waiting, Cancel Dmypy]
            @ fst (report result)"
    using inner_main_Returned [OF assms(1)] by simp
  then show ?thesis
    using assms(6)
    by (auto simp: tasks_at_exit_def foldl_step_launch foldl_step_report after_first_wait_def
          step_def on_task_def after_wait_for_def racing_def)
qed

text \<open>
  C8, counterexample. The daemon answers first with a trustworthy result while the
  one-shot run never ends: \<^verbatim>\<open>sync_task.cancel()\<close> cancels the task, the program exits
  with code 0, and the one-shot child, which no line of the program signals, is still
  running.
\<close>

theorem cancelled_task_leaves_orphan:
  "wait_first mypy_hangs_env example_args = Some {Dmypy}
   \<and> process mypy_hangs_env Mypy (script_path mypy_hangs_env ''mypy'' # example_args) = Never
   \<and> Exec Mypy [''/venv/bin/mypy'', ''src/bmypy.py''] \<in> set (fst (inner_main mypy_hangs_env example_args))
   \<and> Cancel Mypy \<in> set (fst (inner_main mypy_hangs_env example_args))
   \<and> snd (inner_main mypy_hangs_env example_args) = SystemExit 0
   \<and> sync_task (after_first_wait mypy_hangs_env example_args)
       = \<lparr>state = Unfinished, child_alive = True\<rparr>
   \<and> sync_task (tasks_at_exit mypy_hangs_env example_args)
       = \<lparr>state = Cancelled, child_alive = True\<rparr>"
proof -
  have a: "example_args \<noteq> []"
    by (simp add: example_args_def)
  have w: "wait_first mypy_hangs_env example_args = Some {Dmypy}"
    by (simp add: scenario_defs more_scenario_defs)
  have d: "snd (run_dmypy mypy_hangs_env example_args) =
       Returned \<lparr>type = Dmypy, stdout = clean_output, stderr = [], exit_code = 0\<rparr>"
    by (simp add: scenario_defs more_scenario_defs)
  have s: "is_successful_result \<lparr>type = Dmypy, stdout = clean_output, stderr = [], exit_code = 0\<rparr>"
    by (rule clean_result_successful)
  have p: "process mypy_hangs_env Mypy (script_path mypy_hangs_env ''mypy'' # example_args) = Never"
    by (simp add: scenario_defs more_scenario_defs)
  have i: "inner_main mypy_hangs_env example_args =
       (launch mypy_hangs_env example_args
          @ [Log DEBUG (Dmypy_finished 0), Cancel Mypy] @ fst (report
               \<lparr>type = Dmypy, stdout = clean_output, stderr = [], exit_code = 0\<rparr>),
        SystemExit 0)"
    using inner_main_Returned [OF a coordinate_daemon_accepted [OF w _ d s]] by simp
  have sn: "seen mypy_hangs_env example_args Mypy = \<lparr>state = Unfinished, child_alive = True\<rparr>"
    using w by (simp add: seen_def racing_def launch_failed_def scenario_defs more_scenario_defs)
  have t: "sync_task (tasks_at_exit mypy_hangs_env example_args)
             = \<lparr>state = Cancelled, child_alive = True\<rparr>"
    using tasks_at_exit_daemon_accepted [OF a w _ d s] sn by (simp add: cancel_def)
  have e: "Exec Mypy [''/venv/bin/mypy'', ''src/bmypy.py'']
             \<in> set (fst (inner_main mypy_hangs_env example_args))"
    unfolding i by (simp add: launch_events mypy_hangs_env_def venv_def example_args_def)
  have c: "Cancel Mypy \<in> set (fst (inner_main mypy_hangs_env example_args))"
    unfolding i by simp
  show ?thesis
    using w p e c i sn t by (simp add: after_first_wait_def)
qed

text \<open>
  C8, amended. Cancelling a task that has already completed is a no-op. Cancelling a
  task that still holds a live child cancels the task only: the child is left as it is.
  So after \<^verbatim>\<open>sync_task.cancel()\<close> on line 96 the one-shot task is as \<^verbatim>\<open>wait\<close> left it
  when it was done, and cancelled otherwise, with its child, if it could be launched,
  still running when the tool exits; and when the wait for the daemon task times out,
  the task is cancelled by \<^verbatim>\<open>wait_for\<close>, \<^verbatim>\<open>daemon_task.cancel()\<close> on line 113 is a no-op,
  and the daemon client, if it could be launched, is still running when the tool exits.
\<close>

theorem cancel_leaves_child_running:
  assumes "args \<noteq> []"
  shows "(state t = Finished \<longrightarrow> cancel t = t)
       \<and> (state t = Unfinished \<longrightarrow> state (cancel t) = Cancelled)
       \<and> child_alive (cancel t) = child_alive t
       \<and> cancel (cancel t) = cancel t
       \<and> (\<forall>done result.
            wait_first e args = Some done \<and> Dmypy \<in> done
            \<and> snd (run_dmypy e args) = Returned result \<and> is_successful_result result \<longrightarrow>
              snd (inner_main e args) = SystemExit (exit_code result)
              \<and> sync_task (tasks_at_exit e args) =
                  (if Mypy \<in> done then \<lparr>state = Finished, child_alive = False\<rparr>
                   else \<lparr>state = Cancelled,
                         child_alive = \<not> launch_failed (snd (run_mypy e args))\<rparr>))
       \<and> (\<forall>done result.
            wait_first e args = Some done \<and> Dmypy \<notin> done \<and> Mypy \<in> done
            \<and> snd (run_mypy e args) = Returned result
            \<and> (snd (run_dmypy e args) = Pending \<or> \<not> within_grace e) \<longrightarrow>
              snd (inner_main e args) = SystemExit (exit_code result)
              \<and> daemon_task (tasks_at_exit e args) =
                  \<lparr>state = Cancelled,
                   child_alive = \<not> launch_failed (snd (run_dmypy e args))\<rparr>)"
proof (intro conjI allI impI)
  show "cancel t = t" if "state t = Finished"
    using that by (simp add: cancel_def)
  show "state (cancel t) = Cancelled" if "state t = Unfinished"
    using that by (simp add: cancel_def)
  show "child_alive (cancel t) = child_alive t"
    by (simp add: cancel_def split: task_state.splits)
  show "cancel (cancel t) = cancel t"
    by (simp add: cancel_def split: task_state.splits)
next
  fix ts result
  assume h: "wait_first e args = Some ts \<and> Dmypy \<in> ts
            \<and> snd (run_dmypy e args) = Returned result \<and> is_successful_result result"
  then have w: "wait_first e args = Some ts" and i: "Dmypy \<in> ts"
    and d: "snd (run_dmypy e args) = Returned result" and s: "is_successful_result result"
    by simp_all
  show "snd (inner_main e args) = SystemExit (exit_code result)"
    using inner_main_Returned [OF assms coordinate_daemon_accepted [OF w i d s]] by simp
  show "sync_task (tasks_at_exit e args) =
          (if Mypy \<in> ts then \<lparr>state = Finished, child_alive = False\<rparr>
           else \<lparr>state = Cancelled, child_alive = \<not> launch_failed (snd (run_mypy e args))\<rparr>)"
    using tasks_at_exit_daemon_accepted [OF assms w i d s] w
    by (simp add: seen_def cancel_def racing_def)
next
  fix ts result
  assume h: "wait_first e args = Some ts \<and> Dmypy \<notin> ts \<and> Mypy \<in> ts
            \<and> snd (run_mypy e args) = Returned result
            \<and> (snd (run_dmypy e args) = Pending \<or> \<not> within_grace e)"
  then have w: "wait_first e args = Some ts" and i: "Dmypy \<notin> ts" and j: "Mypy \<in> ts"
    and m: "snd (run_mypy e args) = Returned result"
    and l: "snd (run_dmypy e args) = Pending \<or> \<not> within_grace e"
    by simp_all
  have g: "grace_wait e args = Raised TimeoutError"
    using l by (auto simp: grace_wait_def wait_for_def split: awaited.splits)
  have "snd (coordinate e args) = Returned result"
    using coordinate_sync_first [OF w i j m] g by simp
  then show "snd (inner_main e args) = SystemExit (exit_code result)"
    by (rule inner_main_reports(4) [OF assms])
  show "daemon_task (tasks_at_exit e args) =
          \<lparr>state = Cancelled, child_alive = \<not> launch_failed (snd (run_dmypy e args))\<rparr>"
    using tasks_at_exit_timeout [OF assms w i j m l] w i
    by (simp add: seen_def cancel_def racing_def)
qed

theorem cancel_leaves_child_running_witness:
  "example_args \<noteq> []
   \<and> wait_first both_done_env example_args = Some {Dmypy, Mypy}
   \<and> snd (inner_main both_done_env example_args) = SystemExit 0
   \<and> sync_task (tasks_at_exit both_done_env example_args)
       = \<lparr>state = Finished, child_alive = False\<rparr>
   \<and> wait_first daemon_stale_env example_args = Some {Dmypy}
   \<and> snd (inner_main daemon_stale_env example_args) = SystemExit 0
   \<and> sync_task (tasks_at_exit daemon_stale_env example_args)
       = \<lparr>state = Cancelled, child_alive = True\<rparr>
   \<and> wait_first daemon_hangs_env example_args = Some {Mypy}
   \<and> snd (inner_main daemon_hangs_env example_args) = SystemExit 0
   \<and> daemon_task (tasks_at_exit daemon_hangs_env example_args)
       = \<lparr>state = Cancelled, child_alive = True\<rparr>"
proof -
  have a: "example_args \<noteq> []"
    by (simp add: example_args_def)
  have s: "is_successful_result \<lparr>type = Dmypy, stdout = clean_output, stderr = [], exit_code = 0\<rparr>"
    by (rule clean_result_successful)
  have w1: "wait_first both_done_env example_args = Some {Dmypy, Mypy}"
    by (simp add: scenario_defs more_scenario_defs)
  have h1: "wait_first both_done_env example_args = Some {Dmypy, Mypy} \<and> Dmypy \<in> {Dmypy, Mypy}
      \<and> snd (run_dmypy both_done_env example_args) =
          Returned \<lparr>type = Dmypy, stdout = clean_output, stderr = [], exit_code = 0\<rparr>
      \<and> is_successful_result \<lparr>type = Dmypy, stdout = clean_output, stderr = [], exit_code = 0\<rparr>"
    using s by (simp add: scenario_defs more_scenario_defs)
  note th1 = cancel_leaves_child_running [OF a, of _ both_done_env]
  have r1: "snd (inner_main both_done_env example_args) = SystemExit 0
      \<and> sync_task (tasks_at_exit both_done_env example_args)
          = \<lparr>state = Finished, child_alive = False\<rparr>"
    using th1 [THEN conjunct2, THEN conjunct2, THEN conjunct2, THEN conjunct2, THEN conjunct1,
               rule_format, OF h1]
    by simp
  have w2: "wait_first daemon_stale_env example_args = Some {Dmypy}"
    by (simp add: scenario_defs more_scenario_defs)
  have h2: "wait_first daemon_stale_env example_args = Some {Dmypy} \<and> Dmypy \<in> {Dmypy}
      \<and> snd (run_dmypy daemon_stale_env example_args) =
          Returned \<lparr>type = Dmypy, stdout = clean_output, stderr = [], exit_code = 0\<rparr>
      \<and> is_successful_result \<lparr>type = Dmypy, stdout = clean_output, stderr = [], exit_code = 0\<rparr>"
    using s by (simp add: scenario_defs more_scenario_defs)
  have l2: "\<not> launch_failed (snd (run_mypy daemon_stale_env example_args))"
    by (simp add: launch_failed_def scenario_defs more_scenario_defs)
  note th2 = cancel_leaves_child_running [OF a, of _ daemon_stale_env]
  have r2: "snd (inner_main daemon_stale_env example_args) = SystemExit 0
      \<and> sync_task (tasks_at_exit daemon_stale_env example_args)
          = \<lparr>state = Cancelled, child_alive = True\<rparr>"
    using th2 [THEN conjunct2, THEN conjunct2, THEN conjunct2, THEN conjunct2, THEN conjunct1,
               rule_format, OF h2] l2
    by simp
  have w3: "wait_first daemon_hangs_env example_args = Some {Mypy}"
    by (simp add: scenario_defs)
  have h3: "wait_first daemon_hangs_env example_args = Some {Mypy} \<and> Dmypy \<notin> {Mypy}
      \<and> Mypy \<in> {Mypy}
      \<and> snd (run_mypy daemon_hangs_env example_args) =
          Returned \<lparr>type = Mypy, stdout = clean_output, stderr = [], exit_code = 0\<rparr>
      \<and> (snd (run_dmypy daemon_hangs_env example_args) = Pending
           \<or> \<not> within_grace daemon_hangs_env)"
    by (simp add: scenario_defs)
  have l3: "\<not> launch_failed (snd (run_dmypy daemon_hangs_env example_args))"
    by (simp add: launch_failed_def scenario_defs)
  note th3 = cancel_leaves_child_running [OF a, of _ daemon_hangs_env]
  have r3: "snd (inner_main daemon_hangs_env example_args) = SystemExit 0
      \<and> daemon_task (tasks_at_exit daemon_hangs_env example_args)
          = \<lparr>state = Cancelled, child_alive = True\<rparr>"
    using th3 [THEN conjunct2, THEN conjunct2, THEN conjunct2, THEN conjunct2, THEN conjunct2,
               rule_format, OF h3] l3
    by simp
  show ?thesis
    using a w1 r1 w2 r2 w3 r3 by blast
qed

end
